theory Spec2Isabelle
  imports Complex_Main
begin

section \<open>Data model\<close>

text \<open>
  The program is Python over numpy arrays. The embedding fixes the following reading.

  \<^item> A Python \<open>float\<close> is an idealised real number: rounding of IEEE arithmetic is not
    modelled. Integers (array shapes, bin factors) are \<open>nat\<close> or \<open>int\<close>.
  \<^item> A two-dimensional array is a list of rows. A cell is \<open>None\<close> for the no-data
    sentinel and \<open>Some v\<close> for an elevation sample.
  \<^item> An exception is a value \<open>Inl e\<close> of a sum type; normal return is \<open>Inr v\<close>.
  \<^item> A path is a string.
\<close>

type_synonym cell = "real option"
type_synonym grid = "cell list list"
type_synonym path = string

datatype error =
    ValueError
  | ZeroDivisionError
  | IndexError
  | TypeError
  | UnboundLocalError
  | InvalidTileFormat
  | NoSTACItemFound
  | IOFailure

text \<open>\<open>array.shape\<close>: the number of rows and the length of the first row.\<close>

definition shape :: "grid \<Rightarrow> nat \<times> nat" where
  "shape array = (length array, (case array of [] \<Rightarrow> 0 | r # _ \<Rightarrow> length r))"

text \<open>All rows of an array have the length the shape reports.\<close>

definition rectangular :: "grid \<Rightarrow> bool" where
  "rectangular array = list_all (\<lambda>r. length r = snd (shape array)) array"

text \<open>
  \<open>ModelSize\<close> of \<open>mapa.algorithm\<close>: a pair of target dimensions. The source's field
  names \<open>x\<close> and \<open>y\<close> are prefixed here.
\<close>

datatype ModelSize = ModelSize (size_x: real) (size_y: real)

type_synonym vertex = "real \<times> real \<times> real"
type_synonym triangle = "vertex \<times> vertex \<times> vertex"
type_synonym mesh = "triangle list"

section \<open>Size derivation: \<open>_get_desired_size\<close>\<close>

text \<open>
  \<^verbatim>\<open>
  def _get_desired_size(array, x, y, ensure_squared):
      if ensure_squared:
          return ModelSize(x=x, y=y)
      else:
          rows, cols = array.shape
          return ModelSize(x=x, y=y / rows * cols)
  \<close>
  Dividing a float by the integer 0 raises \<open>ZeroDivisionError\<close>.
\<close>

definition get_desired_size :: "grid \<Rightarrow> real \<Rightarrow> real \<Rightarrow> bool \<Rightarrow> error + ModelSize" where
  "get_desired_size array x y ensure_squared =
     (if ensure_squared then Inr (ModelSize x y)
      else (let (rows, cols) = shape array in
            if rows = 0 then Inl ZeroDivisionError
            else Inr (ModelSize x (y / real rows * real cols))))"

section \<open>Configuration and Python's \<open>round\<close>\<close>

text \<open>
  The constants of \<open>mapa.conf\<close> that \<open>convert_array_to_stl\<close> reads. Their values are not
  part of the sources at hand, so they are parameters of the model.
\<close>

record conf =
  MAXIMUM_RESOLUTION :: real
  PERFORMANCE_WARNING_THRESHOLD :: real

text \<open>Python 3 \<open>round\<close> on a float: to the nearest integer, a tie to the even one.\<close>

definition py_round :: "real \<Rightarrow> int" where
  "py_round r =
     (let f = \<lfloor>r\<rfloor>; d = r - of_int f in
      if d < 1 / 2 then f
      else if 1 / 2 < d then f + 1
      else if even f then f else f + 1)"

section \<open>The pipeline: \<open>convert_array_to_stl\<close>\<close>

text \<open>
  The four stages that \<open>convert_array_to_stl\<close> calls live in modules outside the sources
  at hand (\<open>mapa.raster\<close>, \<open>mapa.algorithm\<close>, \<open>mapa.stl_file\<close>). The pipeline is modelled
  over arbitrary implementations of them, each of which may raise.
\<close>

record stages =
  call_remove_empty_first_and_last_rows_and_cols :: "grid \<Rightarrow> error + grid"
  call_reduce_resolution :: "grid \<Rightarrow> int \<Rightarrow> error + grid"
  call_compute_all_triangles ::
    "grid \<Rightarrow> ModelSize \<Rightarrow> real option \<Rightarrow> real \<Rightarrow> real \<Rightarrow> error + mesh"
  call_save_to_stl_file :: "mesh \<Rightarrow> path \<Rightarrow> bool \<Rightarrow> error + path"

text \<open>
  What a run does besides returning: the stage calls with their arguments and the log
  records, in the order in which they happen.
\<close>

datatype event =
    Trim grid
  | Log_warning_max_res
  | Log_debug_reducing
  | Reduce grid int
  | Triangulate grid ModelSize "real option" real real
  | Log_debug_saving
  | Save mesh path bool
  | Log_info_success path

type_synonym 'a io = "event list \<times> (error + 'a)"

definition io_return :: "'a \<Rightarrow> 'a io" where
  "io_return v = ([], Inr v)"

definition io_raise :: "error \<Rightarrow> 'a io" where
  "io_raise e = ([], Inl e)"

definition io_bind :: "'a io \<Rightarrow> ('a \<Rightarrow> 'b io) \<Rightarrow> 'b io" where
  "io_bind m f =
     (case m of
        (t, Inl e) \<Rightarrow> (t, Inl e)
      | (t, Inr v) \<Rightarrow> (case f v of (t', r) \<Rightarrow> (t @ t', r)))"

definition io_call :: "event \<Rightarrow> error + 'a \<Rightarrow> 'a io" where
  "io_call ev r = ([ev], r)"

definition io_log :: "event \<Rightarrow> unit io" where
  "io_log ev = ([ev], Inr ())"

text \<open>
  \<^verbatim>\<open>
  x, y = array.shape
  if x > 1 and y > 1:
      array = remove_empty_first_and_last_rows_and_cols(array)
  \<close>
\<close>

definition trim_step :: "stages \<Rightarrow> nat \<Rightarrow> nat \<Rightarrow> grid \<Rightarrow> grid io" where
  "trim_step st x y array =
     (if 1 < x \<and> 1 < y
      then io_call (Trim array) (call_remove_empty_first_and_last_rows_and_cols st array)
      else io_return array)"

text \<open>
  \<^verbatim>\<open>
  bin_fac = round((x / conf.MAXIMUM_RESOLUTION + y / conf.MAXIMUM_RESOLUTION) / 2)
  \<close>
\<close>

definition bin_factor_of :: "conf \<Rightarrow> nat \<Rightarrow> nat \<Rightarrow> int" where
  "bin_factor_of cf x y =
     py_round ((real x / MAXIMUM_RESOLUTION cf + real y / MAXIMUM_RESOLUTION cf) / 2)"

text \<open>
  \<^verbatim>\<open>
  if max_res:
      if x * y > conf.PERFORMANCE_WARNING_THRESHOLD:
          log.warning(...)
  else:
      bin_fac = ...
      if bin_fac > 1:
          log.debug(...)
          array = reduce_resolution(array, bin_factor=bin_fac)
  \<close>
  A division by a zero \<open>MAXIMUM_RESOLUTION\<close> raises.
\<close>

definition resolution_step :: "conf \<Rightarrow> stages \<Rightarrow> bool \<Rightarrow> nat \<Rightarrow> nat \<Rightarrow> grid \<Rightarrow> grid io" where
  "resolution_step cf st max_res x y array =
     (if max_res then
        (if PERFORMANCE_WARNING_THRESHOLD cf < real (x * y)
         then io_bind (io_log Log_warning_max_res) (\<lambda>_. io_return array)
         else io_return array)
      else if MAXIMUM_RESOLUTION cf = 0 then io_raise ZeroDivisionError
      else
        (let bin_fac = bin_factor_of cf x y in
         if 1 < bin_fac
         then io_bind (io_log Log_debug_reducing)
                (\<lambda>_. io_call (Reduce array bin_fac) (call_reduce_resolution st array bin_fac))
         else io_return array))"

text \<open>
  \<^verbatim>\<open>
  triangles = compute_all_triangles(array, desired_size, z_offset, z_scale, elevation_scale)
  log.debug(...)
  output_file = save_to_stl_file(triangles, output_file, as_ascii)
  log.info(...)
  return Path(output_file)
  \<close>
\<close>

definition output_step ::
  "stages \<Rightarrow> bool \<Rightarrow> ModelSize \<Rightarrow> real option \<Rightarrow> real \<Rightarrow> real \<Rightarrow> path \<Rightarrow> grid \<Rightarrow> path io" where
  "output_step st as_ascii desired_size z_offset z_scale elevation_scale output_file array =
     io_bind
       (io_call (Triangulate array desired_size z_offset z_scale elevation_scale)
          (call_compute_all_triangles st array desired_size z_offset z_scale elevation_scale))
       (\<lambda>triangles.
          io_bind (io_log Log_debug_saving)
            (\<lambda>_. io_bind
                    (io_call (Save triangles output_file as_ascii)
                       (call_save_to_stl_file st triangles output_file as_ascii))
                    (\<lambda>out. io_bind (io_log (Log_info_success out)) (\<lambda>_. io_return out))))"

definition convert_array_to_stl ::
  "conf \<Rightarrow> stages \<Rightarrow> grid \<Rightarrow> bool \<Rightarrow> ModelSize \<Rightarrow> bool \<Rightarrow> real option \<Rightarrow> real \<Rightarrow> real \<Rightarrow> path
     \<Rightarrow> path io" where
  "convert_array_to_stl cf st array as_ascii desired_size max_res z_offset z_scale
       elevation_scale output_file =
     (let (x, y) = shape array in
      io_bind (trim_step st x y array)
        (\<lambda>array1.
           io_bind (resolution_step cf st max_res x y array1)
             (output_step st as_ascii desired_size z_offset z_scale elevation_scale
                output_file)))"

text \<open>
  Reading a trace: the stage an event calls (in the order of the specification: border
  trimming, resolution reduction, triangulation, serialization), and the arguments of the
  calls of one stage.
\<close>

fun collect :: "('a \<Rightarrow> 'b option) \<Rightarrow> 'a list \<Rightarrow> 'b list" where
  "collect f [] = []"
| "collect f (e # t) = (case f e of None \<Rightarrow> collect f t | Some v \<Rightarrow> v # collect f t)"

fun stage_rank :: "event \<Rightarrow> nat option" where
  "stage_rank (Trim _) = Some 0"
| "stage_rank (Reduce _ _) = Some 1"
| "stage_rank (Triangulate _ _ _ _ _) = Some 2"
| "stage_rank (Save _ _ _) = Some 3"
| "stage_rank _ = None"

fun trimmed :: "event \<Rightarrow> grid option" where
  "trimmed (Trim g) = Some g"
| "trimmed _ = None"

fun reduced :: "event \<Rightarrow> (grid \<times> int) option" where
  "reduced (Reduce g b) = Some (g, b)"
| "reduced _ = None"

fun triangulated :: "event \<Rightarrow> grid option" where
  "triangulated (Triangulate g _ _ _ _) = Some g"
| "triangulated _ = None"

fun saved :: "event \<Rightarrow> (mesh \<times> path \<times> bool) option" where
  "saved (Save m p a) = Some (m, p, a)"
| "saved _ = None"

section \<open>Border trimming\<close>

text \<open>
  Modelled from the spec: \<open>remove_empty_first_and_last_rows_and_cols\<close> of \<open>mapa.raster\<close>
  is not among the sources at hand. The specification (4.1) says: it removes leading and
  trailing rows and columns that are entirely no-data, but only when doing so leaves at
  least a 1 x 1 array; if the whole grid would be trimmed away, it returns the grid
  unchanged.
\<close>

definition empty_line :: "cell list \<Rightarrow> bool" where
  "empty_line r = list_all (\<lambda>c. c = None) r"

definition empty_col :: "grid \<Rightarrow> nat \<Rightarrow> bool" where
  "empty_col g j = list_all (\<lambda>r. r ! j = None) g"

definition trim_rows :: "grid \<Rightarrow> grid" where
  "trim_rows g = rev (dropWhile empty_line (rev (dropWhile empty_line g)))"

definition leading_cols :: "grid \<Rightarrow> nat" where
  "leading_cols g = length (takeWhile (empty_col g) [0 ..< snd (shape g)])"

definition trailing_cols :: "grid \<Rightarrow> nat" where
  "trailing_cols g = length (takeWhile (empty_col g) (rev [0 ..< snd (shape g)]))"

definition trim_cols :: "grid \<Rightarrow> grid" where
  "trim_cols g =
     map (\<lambda>r. take (snd (shape g) - leading_cols g - trailing_cols g) (drop (leading_cols g) r)) g"

definition trim_candidate :: "grid \<Rightarrow> grid" where
  "trim_candidate g = trim_cols (trim_rows g)"

text \<open>
  Modelled from the spec: \<open>remove_empty_first_and_last_rows_and_cols\<close> (\<open>mapa.raster\<close>,
  the specification's \<open>trim_borders\<close>). The trimmed candidate is the result when it has at
  least 1 x 1 cells; otherwise the grid is returned unchanged.
\<close>

definition remove_empty_first_and_last_rows_and_cols :: "grid \<Rightarrow> grid" where
  "remove_empty_first_and_last_rows_and_cols g =
     (let t = trim_candidate g; (rows, cols) = shape t in
      if 1 \<le> rows \<and> 1 \<le> cols then t else g)"

text \<open>
  A grid has data when some row has a data cell; a grid without data is one that the
  trimming would remove entirely. \<open>kept_cols\<close> is the number of columns between the
  leading and the trailing empty ones.
\<close>

definition has_data :: "grid \<Rightarrow> bool" where
  "has_data g = (\<exists>r \<in> set g. \<not> empty_line r)"

definition kept_cols :: "grid \<Rightarrow> nat" where
  "kept_cols h = snd (shape h) - leading_cols h - trailing_cols h"

section \<open>Resolution reduction\<close>

text \<open>
  Modelled from the spec: \<open>reduce_resolution\<close> of \<open>mapa.algorithm\<close> is not among the
  sources at hand. The specification (4.2) says: when the bin factor is at most 1 the
  grid is returned unchanged; otherwise each output cell is the mean of a block of
  bin factor x bin factor input cells, ignoring no-data cells, and no-data when the whole
  block is no-data; a final partial block is reduced over its available cells; the output
  has ceil(rows / bin factor) x ceil(cols / bin factor) cells.
\<close>

definition ceil_div :: "nat \<Rightarrow> nat \<Rightarrow> nat" where
  "ceil_div n b = (n + b - 1) div b"

definition block_cells :: "grid \<Rightarrow> nat \<Rightarrow> nat \<Rightarrow> nat \<Rightarrow> cell list" where
  "block_cells g b i j = concat (map (\<lambda>r. take b (drop (j * b) r)) (take b (drop (i * b) g)))"

definition block_mean :: "cell list \<Rightarrow> cell" where
  "block_mean cs =
     (let vs = collect id cs in
      if vs = [] then None else Some (sum_list vs / real (length vs)))"

definition bin_grid :: "grid \<Rightarrow> nat \<Rightarrow> grid" where
  "bin_grid g b =
     (let (rows, cols) = shape g in
      map (\<lambda>i. map (\<lambda>j. block_mean (block_cells g b i j)) [0 ..< ceil_div cols b])
        [0 ..< ceil_div rows b])"

text \<open>
  Modelled from the spec: \<open>reduce_resolution\<close> (\<open>mapa.algorithm\<close>, the specification's
  \<open>reduce\<close>). A bin factor of at most 1 returns the grid unchanged; a larger one bins it.
\<close>

definition reduce_resolution :: "grid \<Rightarrow> int \<Rightarrow> grid" where
  "reduce_resolution g bin_factor = (if bin_factor \<le> 1 then g else bin_grid g (nat bin_factor))"

section \<open>Triangulation\<close>

text \<open>
  Modelled from the spec: \<open>compute_all_triangles\<close> of \<open>mapa.algorithm\<close> is not among the
  sources at hand. The specification (4.3) says: the elevation of a cell is
  z = (raw * elevation_scale) * z_scale + effective_offset, where the effective offset is
  the given z-offset or, when that is absent, the negative of the minimum elevation in the
  grid after scaling. The mesh is the top surface (two triangles for each 2 x 2
  neighbourhood of grid points, split along one fixed diagonal; a quad with a no-data
  corner is skipped), a vertical wall down to z = 0 under every boundary edge of the top
  surface, and two triangles at z = 0 spanning the physical extent.

  Where the specification leaves a choice, the model fixes one: the diagonal runs from the
  corner (i, j) to the corner (i + 1, j + 1); grid point (i, j) is projected to
  (size_x * i / (rows - 1), size_y * j / (cols - 1)), so that the top surface covers the
  extent the bottom face spans; a grid with no data cell gets the offset 0.
\<close>

definition cell_at :: "grid \<Rightarrow> nat \<Rightarrow> nat \<Rightarrow> cell" where
  "cell_at g i j = (if i < length g \<and> j < length (g ! i) then g ! i ! j else None)"

definition data_values :: "grid \<Rightarrow> real list" where
  "data_values g = collect id (concat g)"

definition scaled_elevation :: "real \<Rightarrow> real \<Rightarrow> real \<Rightarrow> real" where
  "scaled_elevation elevation_scale z_scale raw = (raw * elevation_scale) * z_scale"

text \<open>
  Modelled from the spec: the effective offset and the elevation of a cell, computed inside
  \<open>compute_all_triangles\<close>. The offset is the z-offset when one is given, else the negative
  of the minimum of the scaled elevations of the data cells.
\<close>

definition effective_offset :: "grid \<Rightarrow> real option \<Rightarrow> real \<Rightarrow> real \<Rightarrow> real" where
  "effective_offset g z_offset z_scale elevation_scale =
     (case z_offset of
        Some z \<Rightarrow> z
      | None \<Rightarrow>
          (case map (scaled_elevation elevation_scale z_scale) (data_values g) of
             [] \<Rightarrow> 0
           | v # vs \<Rightarrow> - fold min vs v))"

definition cell_z :: "real \<Rightarrow> real \<Rightarrow> real \<Rightarrow> real \<Rightarrow> real" where
  "cell_z elevation_scale z_scale offset raw = (raw * elevation_scale) * z_scale + offset"

text \<open>The parameters of one triangulation, fixed once per grid.\<close>

record projection =
  rows_of :: nat
  cols_of :: nat
  extent_x :: real
  extent_y :: real
  scale_e :: real
  scale_z :: real
  offset_z :: real

definition grid_vertex :: "projection \<Rightarrow> grid \<Rightarrow> nat \<Rightarrow> nat \<Rightarrow> vertex option" where
  "grid_vertex pr g i j =
     (case cell_at g i j of
        None \<Rightarrow> None
      | Some raw \<Rightarrow>
          Some (extent_x pr * real i / real (rows_of pr - 1),
                extent_y pr * real j / real (cols_of pr - 1),
                cell_z (scale_e pr) (scale_z pr) (offset_z pr) raw))"

text \<open>The quad with the corners (i, j), (i, j + 1), (i + 1, j), (i + 1, j + 1).\<close>

definition quad :: "projection \<Rightarrow> grid \<Rightarrow> nat \<Rightarrow> nat \<Rightarrow> triangle list" where
  "quad pr g i j =
     (case (grid_vertex pr g i j, grid_vertex pr g i (j + 1),
            grid_vertex pr g (i + 1) j, grid_vertex pr g (i + 1) (j + 1)) of
        (Some a, Some b, Some c, Some d) \<Rightarrow> [(a, c, d), (a, d, b)]
      | _ \<Rightarrow> [])"

definition has_quad :: "projection \<Rightarrow> grid \<Rightarrow> nat \<Rightarrow> nat \<Rightarrow> bool" where
  "has_quad pr g i j = (i + 1 < rows_of pr \<and> j + 1 < cols_of pr \<and> quad pr g i j \<noteq> [])"

definition top_surface :: "projection \<Rightarrow> grid \<Rightarrow> mesh" where
  "top_surface pr g =
     concat (map (\<lambda>i. concat (map (\<lambda>j. quad pr g i j) [0 ..< cols_of pr - 1]))
       [0 ..< rows_of pr - 1])"

text \<open>The wall under the edge from \<open>p\<close> to \<open>q\<close>: two triangles down to z = 0.\<close>

definition wall :: "vertex \<Rightarrow> vertex \<Rightarrow> triangle list" where
  "wall p q =
     (case (p, q) of
        ((px, py, pz), (qx, qy, qz)) \<Rightarrow>
          [((px, py, pz), (qx, qy, qz), (qx, qy, 0)), ((px, py, pz), (qx, qy, 0), (px, py, 0))])"

definition wall_between :: "vertex option \<Rightarrow> vertex option \<Rightarrow> triangle list" where
  "wall_between p q = (case (p, q) of (Some a, Some b) \<Rightarrow> wall a b | _ \<Rightarrow> [])"

text \<open>
  An edge of the grid bounds the top surface when exactly one of the two quads beside it
  is emitted. The edge from (i, j) to (i + 1, j) lies between the quads (i, j - 1) and
  (i, j); the edge from (i, j) to (i, j + 1) between the quads (i - 1, j) and (i, j). The
  wall is wound away from the emitted quad.
\<close>

definition wall_along_rows :: "projection \<Rightarrow> grid \<Rightarrow> nat \<Rightarrow> nat \<Rightarrow> triangle list" where
  "wall_along_rows pr g i j =
     (let lower = (1 \<le> j \<and> has_quad pr g i (j - 1)); upper = has_quad pr g i j in
      if upper \<and> \<not> lower then wall_between (grid_vertex pr g (i + 1) j) (grid_vertex pr g i j)
      else if lower \<and> \<not> upper
      then wall_between (grid_vertex pr g i j) (grid_vertex pr g (i + 1) j)
      else [])"

definition wall_along_cols :: "projection \<Rightarrow> grid \<Rightarrow> nat \<Rightarrow> nat \<Rightarrow> triangle list" where
  "wall_along_cols pr g i j =
     (let lower = (1 \<le> i \<and> has_quad pr g (i - 1) j); upper = has_quad pr g i j in
      if upper \<and> \<not> lower then wall_between (grid_vertex pr g i j) (grid_vertex pr g i (j + 1))
      else if lower \<and> \<not> upper
      then wall_between (grid_vertex pr g i (j + 1)) (grid_vertex pr g i j)
      else [])"

definition side_walls :: "projection \<Rightarrow> grid \<Rightarrow> mesh" where
  "side_walls pr g =
     concat (map (\<lambda>i. concat (map (\<lambda>j. wall_along_rows pr g i j) [0 ..< cols_of pr]))
       [0 ..< rows_of pr - 1]) @
     concat (map (\<lambda>i. concat (map (\<lambda>j. wall_along_cols pr g i j) [0 ..< cols_of pr - 1]))
       [0 ..< rows_of pr])"

definition bottom_face :: "projection \<Rightarrow> mesh" where
  "bottom_face pr =
     [((0, 0, 0), (0, extent_y pr, 0), (extent_x pr, extent_y pr, 0)),
      ((0, 0, 0), (extent_x pr, extent_y pr, 0), (extent_x pr, 0, 0))]"

definition projection_of ::
  "grid \<Rightarrow> ModelSize \<Rightarrow> real option \<Rightarrow> real \<Rightarrow> real \<Rightarrow> projection" where
  "projection_of g desired_size z_offset z_scale elevation_scale =
     \<lparr>rows_of = fst (shape g), cols_of = snd (shape g),
      extent_x = size_x desired_size, extent_y = size_y desired_size,
      scale_e = elevation_scale, scale_z = z_scale,
      offset_z = effective_offset g z_offset z_scale elevation_scale\<rparr>"

text \<open>
  Modelled from the spec: \<open>compute_all_triangles\<close> (\<open>mapa.algorithm\<close>, the
  specification's \<open>triangulate\<close>). The mesh is the top surface, the side walls and the
  bottom face, in this order.
\<close>

definition compute_all_triangles ::
  "grid \<Rightarrow> ModelSize \<Rightarrow> real option \<Rightarrow> real \<Rightarrow> real \<Rightarrow> mesh" where
  "compute_all_triangles g desired_size z_offset z_scale elevation_scale =
     (let pr = projection_of g desired_size z_offset z_scale elevation_scale in
      top_surface pr g @ side_walls pr g @ bottom_face pr)"



section \<open>Tile format\<close>

text \<open>
  Modelled from the spec: \<open>get_x_y_from_tiles_format\<close> of \<open>mapa.tiling\<close> (the
  specification's \<open>parse_tile_format\<close>) is not among the sources at hand. The
  specification (4.4) says: it accepts strings of the exact shape "<int>x<int>" with both
  integers at least 1; any other shape fails with an invalid-format error (empty string,
  non-numeric parts, zero or negative counts, extra separators). An integer is read here as
  an optional minus sign and one or more decimal digits. The caller reads the fields \<open>x\<close>
  and \<open>y\<close> of the result.
\<close>

datatype TileFormat = TileFormat (tiles_x: int) (tiles_y: int)

fun split_on :: "char \<Rightarrow> string \<Rightarrow> string list" where
  "split_on c [] = [[]]"
| "split_on c (d # s) =
     (if d = c then [] # split_on c s
      else (case split_on c s of [] \<Rightarrow> [[d]] | p # ps \<Rightarrow> (d # p) # ps))"

definition is_digit :: "char \<Rightarrow> bool" where
  "is_digit c = (c \<in> set ''0123456789'')"

definition digit_value :: "char \<Rightarrow> nat" where
  "digit_value c = of_char c - 48"

definition digits_value :: "string \<Rightarrow> nat" where
  "digits_value ds = fold (\<lambda>c acc. 10 * acc + digit_value c) ds 0"

definition parse_nat :: "string \<Rightarrow> nat option" where
  "parse_nat s = (if s \<noteq> [] \<and> list_all is_digit s then Some (digits_value s) else None)"

definition parse_int :: "string \<Rightarrow> int option" where
  "parse_int s =
     (case s of
        [] \<Rightarrow> None
      | c # ds \<Rightarrow>
          if c = CHR ''-'' then map_option (\<lambda>n. - int n) (parse_nat ds)
          else map_option int (parse_nat s))"

text \<open>
  Modelled from the spec: \<open>get_x_y_from_tiles_format\<close> (\<open>mapa.tiling\<close>, the
  specification's \<open>parse_tile_format\<close>). Exactly two parts around one x, both integers, both
  at least 1; everything else is an invalid tile format.
\<close>

definition get_x_y_from_tiles_format :: "string \<Rightarrow> error + TileFormat" where
  "get_x_y_from_tiles_format tiles_format =
     (case split_on CHR ''x'' tiles_format of
        [a, b] \<Rightarrow>
          (case (parse_int a, parse_int b) of
             (Some n, Some m) \<Rightarrow>
               if 1 \<le> n \<and> 1 \<le> m then Inr (TileFormat n m) else Inl InvalidTileFormat
           | _ \<Rightarrow> Inl InvalidTileFormat)
      | _ \<Rightarrow> Inl InvalidTileFormat)"

text \<open>
  The shape the specification names, stated without reference to the splitting: the
  string is an integer, the letter x, an integer, and both integers are at least 1.
\<close>

definition exact_shape :: "string \<Rightarrow> int \<Rightarrow> int \<Rightarrow> bool" where
  "exact_shape s n m =
     (\<exists>a b. s = a @ ''x'' @ b \<and> parse_int a = Some n \<and> parse_int b = Some m \<and> 1 \<le> n \<and> 1 \<le> m)"

section \<open>Acquisition: \<open>mapa.stac\<close>\<close>

text \<open>
  \<^verbatim>\<open>
  def _bbox(coord_list):
      box = []
      for i in (0, 1):
          res = sorted(coord_list, key=lambda x: x[i])
          box.append((res[0][i], res[-1][i]))
      return [box[0][0], box[1][0], box[0][1], box[1][1]]
  \<close>
  The coordinates of the GeoJSON polygon are a list of points; an empty list makes
  \<open>res[0]\<close> raise.
\<close>

type_synonym geojson = "(real \<times> real) list"

definition bbox :: "(real \<times> real) list \<Rightarrow> error + real list" where
  "bbox coord_list =
     (case coord_list of
        [] \<Rightarrow> Inl IndexError
      | p # ps \<Rightarrow>
          Inr [fold min (map fst ps) (fst p), fold min (map snd ps) (snd p),
               fold max (map fst ps) (fst p), fold max (map snd ps) (snd p)])"

text \<open>
  What the catalog service and the raster loader return for a bounding box is outside the
  program: the number of items found, whether they come from the planetary computer, and
  the dataset that \<open>stac_load\<close> builds from the items: its time axis (the acquisition
  times of the scenes, as \<open>strftime\<close> prints them) and the lengths of its y and x axes.
\<close>

record catalog_result =
  n_items :: nat
  planetary_computer :: bool
  scene_times :: "string list"
  raster_height :: nat
  raster_width :: nat

text \<open>
  \<open>xarray.squeeze()\<close> drops every axis of length 1; the axes are given by their lengths,
  in the order time, y, x.
\<close>

definition squeeze :: "nat list \<Rightarrow> nat list" where
  "squeeze dims = filter (\<lambda>n. n \<noteq> 1) dims"

text \<open>
  \<^verbatim>\<open>
  def save_tifs_with_one_band(filepath, bands, collection, meta, xx):
      paths=[]
      for arr in xx[bands]:
          filename=Path(collection+"_" + ...strftime("%Y-%m-%d_%H-%M-%S") + ".tif")
          with rio.open(filepath/filename, "w", ..., driver="COG") as dst:
              dst.write(arr.values, 1)
              dst.set_band_description(1,bands)
              paths.append(filepath/filename)
      return paths
  \<close>
  The loop runs over the first axis that the squeezed array has left. An array without an
  axis cannot be iterated (\<open>TypeError\<close>); an axis of length 0 gives no iteration and the
  empty list. Otherwise the first iteration opens a file of the height and width of
  \<open>meta\<close>, which fails for a raster without pixels, and writes the slice \<open>arr\<close>. The slice
  has two axes only when no axis was dropped: then the loop runs over the time axis and
  appends one path for each scene. A slice with fewer axes makes \<open>dst.write\<close> raise
  \<open>ValueError\<close>; this is the case of a single scene, whose time axis is dropped, so that
  the loop runs over the rows.
\<close>

definition save_tifs_with_one_band ::
  "path \<Rightarrow> string \<Rightarrow> string \<Rightarrow> nat \<Rightarrow> nat \<Rightarrow> nat list \<Rightarrow> string list \<Rightarrow> error + path list" where
  "save_tifs_with_one_band filepath bands collection height width dims stamps =
     (case dims of
        [] \<Rightarrow> Inl TypeError
      | n # rest \<Rightarrow>
          if n = 0 then Inr []
          else if height = 0 \<or> width = 0 then Inl IOFailure
          else if length rest = 2
          then Inr (map (\<lambda>t. filepath @ ''/'' @ collection @ ''_'' @ t @ ''.tif'') stamps)
          else Inl ValueError)"

text \<open>
  \<^verbatim>\<open>
  count=len([bands])
  ...
  width, height = len(xarray.x), len(xarray.y)
  ...
  xx=xarray.squeeze()
  if count == 1 :
      paths=save_tifs_with_one_band(filepath, bands, collection, meta, xx)
  return paths
  \<close>
\<close>

definition save_images_from_xarr ::
  "catalog_result \<Rightarrow> path \<Rightarrow> string \<Rightarrow> string \<Rightarrow> error + path list" where
  "save_images_from_xarr xarray filepath bands collection =
     (let count = length [bands];
          height = raster_height xarray; width = raster_width xarray;
          dims = squeeze [length (scene_times xarray), height, width] in
      if count = 1
      then save_tifs_with_one_band filepath bands collection height width dims
             (scene_times xarray)
      else Inl UnboundLocalError)"

text \<open>
  \<^verbatim>\<open>
  bbox = _turn_geojson_into_bbox(geojson)
  ...
  items = search.get_all_items()
  if are_stac_items_planetary_computer(items):
      ...
      xx=stac_load(items, ...)
  n = len(items)
  if n > 0:
      files=save_images_from_xarr(xx,cache_dir,user_defined_bands,user_defined_collection)
      return files
  else:
      raise NoSTACItemFound(...)
  \<close>
  \<open>stac_load\<close> raises \<open>ValueError\<close> when it is given no item, and \<open>xx\<close> is bound only when
  the items come from the planetary computer.
\<close>

definition fetch_stac_items_for_bbox ::
  "(real list \<Rightarrow> catalog_result) \<Rightarrow> string \<Rightarrow> string \<Rightarrow> geojson \<Rightarrow> path \<Rightarrow> error + path list" where
  "fetch_stac_items_for_bbox catalog user_defined_bands user_defined_collection geojson cache_dir =
     (case bbox geojson of
        Inl e \<Rightarrow> Inl e
      | Inr box \<Rightarrow>
          (let found = catalog box; n = n_items found in
           if planetary_computer found \<and> n = 0 then Inl ValueError
           else if 0 < n then
             (if planetary_computer found
              then save_images_from_xarr found cache_dir user_defined_bands
                     user_defined_collection
              else Inl UnboundLocalError)
           else Inl NoSTACItemFound))"

section \<open>The entry point: \<open>convert_bbox_to_tif\<close>\<close>

text \<open>
  \<^verbatim>\<open>
  if bbox_geometry is None:
      raise ValueError(...)
  tiles = get_x_y_from_tiles_format(split_area_in_tiles)
  ...
  list_paths_to_tiffs=fetch_stac_items_for_bbox(user_defined_bands, user_defined_collection,
      bbox_geometry, allow_caching, cache_dir, progress_bar)
  ...
  if compress:
      return create_zip_archive(files=list_paths_to_tiffs, output_file=f"{output_file}.zip", ...)
  else:
      return list_paths_to_tiffs[0] if len(list_paths_to_tiffs) == 1 else list_paths_to_tiffs
  \<close>
  The archiver \<open>create_zip_archive\<close> of \<open>mapa.zip\<close> is a parameter. The progress bar is
  absent (its default); with one, the tile counts size its steps and nothing else.
\<close>

datatype returned = One path | Many "path list"

fun returned_paths :: "returned \<Rightarrow> path list" where
  "returned_paths (One p) = [p]"
| "returned_paths (Many ps) = ps"

definition convert_bbox_to_tif ::
  "(path list \<Rightarrow> path \<Rightarrow> error + path) \<Rightarrow> (real list \<Rightarrow> catalog_result) \<Rightarrow>
   string \<Rightarrow> string \<Rightarrow> geojson option \<Rightarrow> path \<Rightarrow> string \<Rightarrow> bool \<Rightarrow> path \<Rightarrow> error + returned" where
  "convert_bbox_to_tif create_zip_archive catalog user_defined_collection user_defined_bands
       bbox_geometry output_file split_area_in_tiles compress cache_dir =
     (case bbox_geometry of
        None \<Rightarrow> Inl ValueError
      | Some geometry \<Rightarrow>
          (case get_x_y_from_tiles_format split_area_in_tiles of
             Inl e \<Rightarrow> Inl e
           | Inr tiles \<Rightarrow>
               (case fetch_stac_items_for_bbox catalog user_defined_bands
                       user_defined_collection geometry cache_dir of
                  Inl e \<Rightarrow> Inl e
                | Inr list_paths_to_tiffs \<Rightarrow>
                    if compress then
                      (case create_zip_archive list_paths_to_tiffs (output_file @ ''.zip'') of
                         Inl e \<Rightarrow> Inl e
                       | Inr archive \<Rightarrow> Inr (One archive))
                    else if length list_paths_to_tiffs = 1
                    then Inr (One (list_paths_to_tiffs ! 0))
                    else Inr (Many list_paths_to_tiffs))))"

text \<open>A file name with a given ending.\<close>

definition ends_with :: "string \<Rightarrow> string \<Rightarrow> bool" where
  "ends_with ending p = (length ending \<le> length p \<and> drop (length p - length ending) p = ending)"

section \<open>Concrete inputs\<close>

text \<open>
  The stages as modelled above, put into the pipeline, and a small grid and configuration
  on which the theorems below are instantiated. The serializer returns the path it was
  given.
\<close>

definition modelled_stages :: stages where
  "modelled_stages =
     \<lparr>call_remove_empty_first_and_last_rows_and_cols =
        (\<lambda>g. Inr (remove_empty_first_and_last_rows_and_cols g)),
      call_reduce_resolution = (\<lambda>g b. Inr (reduce_resolution g b)),
      call_compute_all_triangles =
        (\<lambda>g ds zo zs es. Inr (compute_all_triangles g ds zo zs es)),
      call_save_to_stl_file = (\<lambda>m p a. Inr p)\<rparr>"

definition example_grid :: grid where
  "example_grid = [[Some 1, Some 2, Some 3], [Some 4, Some 5, Some 6]]"

definition example_conf_coarse :: conf where
  "example_conf_coarse = \<lparr>MAXIMUM_RESOLUTION = 10, PERFORMANCE_WARNING_THRESHOLD = 5\<rparr>"

definition example_bordered :: grid where
  "example_bordered =
     [[None, None, None], [None, Some 5, None], [None, Some 7, None], [None, None, None]]"

definition example_blank :: grid where
  "example_blank = [[None, None, None], [None, None, None]]"

definition example_row :: grid where
  "example_row = [[None, Some 1, None]]"

definition example_conf :: conf where
  "example_conf = \<lparr>MAXIMUM_RESOLUTION = 1, PERFORMANCE_WARNING_THRESHOLD = 5\<rparr>"

text \<open>
  A catalog that finds, for every bounding box, two planetary-computer items with two
  scenes of 3 x 4 pixels, one that finds a single scene, a polygon, and an archiver that
  returns the path of the archive it was asked to write.
\<close>

definition example_catalog :: "real list \<Rightarrow> catalog_result" where
  "example_catalog box =
     \<lparr>n_items = 2, planetary_computer = True,
      scene_times = [''2023-10-21_10-30-00'', ''2023-10-23_10-30-00''],
      raster_height = 3, raster_width = 4\<rparr>"

definition example_catalog_single :: "real list \<Rightarrow> catalog_result" where
  "example_catalog_single box =
     \<lparr>n_items = 1, planetary_computer = True, scene_times = [''2023-10-21_10-30-00''],
      raster_height = 3, raster_width = 4\<rparr>"

definition example_geometry :: geojson where
  "example_geometry = [(0, 0), (1, 0), (1, 1), (0, 1), (0, 0)]"

definition example_zip :: "path list \<Rightarrow> path \<Rightarrow> error + path" where
  "example_zip files output_file = Inr output_file"

section \<open>Properties\<close>

subsection \<open>The concrete inputs\<close>

lemma example_shape: "shape example_grid = (2, 3)"
  by (simp add: example_grid_def shape_def)

lemma example_conf_nonzero: "MAXIMUM_RESOLUTION example_conf \<noteq> 0"
  by (simp add: example_conf_def)

lemma example_bin_factor: "bin_factor_of example_conf 2 3 = 2"
  by (simp add: bin_factor_of_def example_conf_def py_round_def Let_def)

lemma example_trim: "remove_empty_first_and_last_rows_and_cols example_grid = example_grid"
  by (simp add: remove_empty_first_and_last_rows_and_cols_def trim_candidate_def trim_rows_def
      trim_cols_def leading_cols_def trailing_cols_def empty_col_def empty_line_def shape_def
      example_grid_def upt_rec)

lemma modelled_stages_sel:
  "call_remove_empty_first_and_last_rows_and_cols modelled_stages g =
     Inr (remove_empty_first_and_last_rows_and_cols g)"
  "call_reduce_resolution modelled_stages g b = Inr (reduce_resolution g b)"
  "call_compute_all_triangles modelled_stages g ds zo zs es =
     Inr (compute_all_triangles g ds zo zs es)"
  "call_save_to_stl_file modelled_stages m p a = Inr p"
  by (simp_all add: modelled_stages_def)

subsection \<open>Size derivation\<close>

text \<open>
  C1. For every elevation grid with shape (rows, cols), rows at least 1 as the data model
  requires, and every target size (x, y): with \<open>ensure_squared\<close> the derived model size is
  (x, y) unchanged; otherwise it is (x, y / rows * cols), which is (x, y * cols / rows),
  the y-dimension rescaled by the column/row ratio of the grid.
\<close>

theorem C1_get_desired_size:
  "shape array = (rows, cols) \<Longrightarrow> 1 \<le> rows \<Longrightarrow>
   get_desired_size array x y True = Inr (ModelSize x y) \<and>
   get_desired_size array x y False = Inr (ModelSize x (y / real rows * real cols)) \<and>
   get_desired_size array x y False = Inr (ModelSize x (y * real cols / real rows))"
  by (simp add: get_desired_size_def)

theorem C1_get_desired_size_witness:
  "shape example_grid = (2, 3) \<and> (1::nat) \<le> 2 \<and>
   get_desired_size example_grid 200 200 True = Inr (ModelSize 200 200) \<and>
   get_desired_size example_grid 200 200 False = Inr (ModelSize 200 300)"
proof -
  have r: "(1::nat) \<le> 2" by simp
  show ?thesis
    using example_shape r C1_get_desired_size [OF example_shape r, of 200 200] by simp
qed

subsection \<open>Python's rounding\<close>

lemma py_round_nearest: "\<bar>r - of_int (py_round r)\<bar> \<le> 1 / 2"
  unfolding py_round_def Let_def by (auto; linarith)

lemma py_round_tie: "r - of_int \<lfloor>r\<rfloor> = 1 / 2 \<Longrightarrow> even (py_round r)"
  unfolding py_round_def Let_def by auto

subsection \<open>The pipeline, step by step\<close>

lemma collect_append: "collect f (s @ t) = collect f s @ collect f t"
  by (induction s) (auto split: option.splits)

lemma fst_io_bind:
  "fst (io_bind m f) = fst m @ (case snd m of Inl e \<Rightarrow> [] | Inr v \<Rightarrow> fst (f v))"
  by (cases m) (auto simp: io_bind_def split: sum.splits prod.splits)

lemma snd_io_bind:
  "snd (io_bind m f) = (case snd m of Inl e \<Rightarrow> Inl e | Inr v \<Rightarrow> snd (f v))"
  by (cases m) (auto simp: io_bind_def split: sum.splits prod.splits)

lemma io_bind_return: "io_bind ([], Inr a) f = f a"
  by (cases "f a") (simp add: io_bind_def)

lemma trim_step_eq:
  "trim_step st x y a =
     (if 1 < x \<and> 1 < y
      then ([Trim a], call_remove_empty_first_and_last_rows_and_cols st a)
      else ([], Inr a))"
  by (simp add: trim_step_def io_call_def io_return_def)

lemma resolution_step_eq:
  "resolution_step cf st max_res x y a =
     (if max_res
      then ((if PERFORMANCE_WARNING_THRESHOLD cf < real (x * y) then [Log_warning_max_res] else []),
            Inr a)
      else if MAXIMUM_RESOLUTION cf = 0 then ([], Inl ZeroDivisionError)
      else if 1 < bin_factor_of cf x y
      then ([Log_debug_reducing, Reduce a (bin_factor_of cf x y)],
            call_reduce_resolution st a (bin_factor_of cf x y))
      else ([], Inr a))"
  by (simp add: resolution_step_def io_bind_def io_call_def io_log_def io_return_def
      io_raise_def Let_def)

lemma output_step_eq:
  "output_step st as_ascii ds zo zs es out a =
     (case call_compute_all_triangles st a ds zo zs es of
        Inl e \<Rightarrow> ([Triangulate a ds zo zs es], Inl e)
      | Inr m \<Rightarrow>
          (case call_save_to_stl_file st m out as_ascii of
             Inl e \<Rightarrow> ([Triangulate a ds zo zs es, Log_debug_saving, Save m out as_ascii], Inl e)
           | Inr p \<Rightarrow>
               ([Triangulate a ds zo zs es, Log_debug_saving, Save m out as_ascii,
                 Log_info_success p], Inr p)))"
  by (simp add: output_step_def io_bind_def io_call_def io_log_def io_return_def
      split: sum.splits)

lemma convert_eq:
  "shape array = (x, y) \<Longrightarrow>
   convert_array_to_stl cf st array as_ascii ds max_res zo zs es out =
     io_bind (trim_step st x y array)
       (\<lambda>a1. io_bind (resolution_step cf st max_res x y a1)
          (output_step st as_ascii ds zo zs es out))"
  by (simp add: convert_array_to_stl_def)

lemma fst_convert:
  "shape array = (x, y) \<Longrightarrow>
   fst (convert_array_to_stl cf st array as_ascii ds max_res zo zs es out) =
   fst (trim_step st x y array) @
   (case snd (trim_step st x y array) of
      Inl e \<Rightarrow> []
    | Inr a1 \<Rightarrow>
        fst (resolution_step cf st max_res x y a1) @
        (case snd (resolution_step cf st max_res x y a1) of
           Inl e \<Rightarrow> []
         | Inr a2 \<Rightarrow> fst (output_step st as_ascii ds zo zs es out a2)))"
  by (simp add: convert_eq fst_io_bind snd_io_bind split: sum.splits)

lemma snd_convert:
  "shape array = (x, y) \<Longrightarrow>
   snd (convert_array_to_stl cf st array as_ascii ds max_res zo zs es out) =
   (case snd (trim_step st x y array) of
      Inl e \<Rightarrow> Inl e
    | Inr a1 \<Rightarrow>
        (case snd (resolution_step cf st max_res x y a1) of
           Inl e \<Rightarrow> Inl e
         | Inr a2 \<Rightarrow> snd (output_step st as_ascii ds zo zs es out a2)))"
  by (simp add: convert_eq snd_io_bind split: sum.splits)

lemma collect_convert:
  "shape array = (x, y) \<Longrightarrow>
   collect f (fst (convert_array_to_stl cf st array as_ascii ds max_res zo zs es out)) =
   collect f (fst (trim_step st x y array)) @
   (case snd (trim_step st x y array) of
      Inl e \<Rightarrow> []
    | Inr a1 \<Rightarrow>
        collect f (fst (resolution_step cf st max_res x y a1)) @
        (case snd (resolution_step cf st max_res x y a1) of
           Inl e \<Rightarrow> []
         | Inr a2 \<Rightarrow> collect f (fst (output_step st as_ascii ds zo zs es out a2))))"
  by (simp add: fst_convert collect_append split: sum.splits)

lemma ranks_trim:
  "collect stage_rank (fst (trim_step st x y a)) = (if 1 < x \<and> 1 < y then [0] else [])"
  by (simp add: trim_step_eq)

lemma ranks_res:
  "collect stage_rank (fst (resolution_step cf st max_res x y a)) =
     (if \<not> max_res \<and> MAXIMUM_RESOLUTION cf \<noteq> 0 \<and> 1 < bin_factor_of cf x y then [1] else [])"
  by (simp add: resolution_step_eq)

lemma ranks_out:
  "collect stage_rank (fst (output_step st as_ascii ds zo zs es out a)) =
     (case call_compute_all_triangles st a ds zo zs es of Inl e \<Rightarrow> [2] | Inr m \<Rightarrow> [2, 3])"
  by (simp add: output_step_eq split: sum.splits)

lemma reduced_trim: "collect reduced (fst (trim_step st x y a)) = []"
  by (simp add: trim_step_eq)

lemma reduced_res:
  "collect reduced (fst (resolution_step cf st max_res x y a)) =
     (if \<not> max_res \<and> MAXIMUM_RESOLUTION cf \<noteq> 0 \<and> 1 < bin_factor_of cf x y
      then [(a, bin_factor_of cf x y)] else [])"
  by (simp add: resolution_step_eq)

lemma reduced_out: "collect reduced (fst (output_step st as_ascii ds zo zs es out a)) = []"
  by (simp add: output_step_eq split: sum.splits)

lemma triangulated_trim: "collect triangulated (fst (trim_step st x y a)) = []"
  by (simp add: trim_step_eq)

lemma triangulated_res: "collect triangulated (fst (resolution_step cf st max_res x y a)) = []"
  by (simp add: resolution_step_eq)

lemma triangulated_out:
  "collect triangulated (fst (output_step st as_ascii ds zo zs es out a)) = [a]"
  by (simp add: output_step_eq split: sum.splits)

lemma trimmed_trim:
  "collect trimmed (fst (trim_step st x y a)) = (if 1 < x \<and> 1 < y then [a] else [])"
  by (simp add: trim_step_eq)

lemma trimmed_res: "collect trimmed (fst (resolution_step cf st max_res x y a)) = []"
  by (simp add: resolution_step_eq)

lemma trimmed_out: "collect trimmed (fst (output_step st as_ascii ds zo zs es out a)) = []"
  by (simp add: output_step_eq split: sum.splits)

lemma snd_res_max: "snd (resolution_step cf st True x y a) = Inr a"
  by (simp add: resolution_step_eq)

lemma snd_res_small:
  "MAXIMUM_RESOLUTION cf \<noteq> 0 \<Longrightarrow> bin_factor_of cf x y \<le> 1 \<Longrightarrow>
   snd (resolution_step cf st False x y a) = Inr a"
  by (simp add: resolution_step_eq)

lemma warning_trim: "Log_warning_max_res \<notin> set (fst (trim_step st x y a))"
  by (simp add: trim_step_eq)

lemma warning_res:
  "Log_warning_max_res \<in> set (fst (resolution_step cf st True x y a)) \<longleftrightarrow>
   PERFORMANCE_WARNING_THRESHOLD cf < real (x * y)"
  by (simp add: resolution_step_eq)

lemma warning_out: "Log_warning_max_res \<notin> set (fst (output_step st as_ascii ds zo zs es out a))"
  by (simp add: output_step_eq split: sum.splits)

lemma warning_convert:
  "shape array = (x, y) \<Longrightarrow> snd (trim_step st x y array) = Inr a1 \<Longrightarrow>
   Log_warning_max_res \<in> set (fst (convert_array_to_stl cf st array as_ascii ds True zo zs es out))
     \<longleftrightarrow> PERFORMANCE_WARNING_THRESHOLD cf < real (x * y)"
  by (simp add: fst_convert snd_res_max warning_trim warning_res warning_out)

lemma example_trim_step:
  "snd (trim_step modelled_stages 2 3 example_grid) = Inr example_grid"
  by (simp add: trim_step_eq modelled_stages_sel example_trim)

lemma snd_res_reduce:
  "MAXIMUM_RESOLUTION cf \<noteq> 0 \<Longrightarrow> 1 < bin_factor_of cf x y \<Longrightarrow>
   snd (resolution_step cf st False x y a) = call_reduce_resolution st a (bin_factor_of cf x y)"
  by (simp add: resolution_step_eq)

lemma fst_trim_step:
  "fst (trim_step st x y a) = (if 1 < x \<and> 1 < y then [Trim a] else [])"
  by (simp add: trim_step_eq)

lemma fst_res_max:
  "fst (resolution_step cf st True x y a) =
     (if PERFORMANCE_WARNING_THRESHOLD cf < real (x * y) then [Log_warning_max_res] else [])"
  by (simp add: resolution_step_eq)

lemma example_reduce: "reduce_resolution example_grid 2 = [[Some 3, Some (9 / 2)]]"
  by (simp add: reduce_resolution_def bin_grid_def ceil_div_def block_cells_def block_mean_def
      shape_def example_grid_def upt_rec)

subsection \<open>The claims about \<open>convert_array_to_stl\<close>\<close>

text \<open>
  C2. For every grid with shape (x, y) given to \<open>convert_array_to_stl\<close> with \<open>max_res\<close>
  false (a non-zero \<open>MAXIMUM_RESOLUTION\<close>, and the trimming step returning the grid
  \<open>a1\<close>), the bin factor is round((x / MAXIMUM_RESOLUTION + y / MAXIMUM_RESOLUTION) / 2),
  an integer within one half of that average. If the factor is greater than 1, the run
  calls the resolution reduction exactly once, on \<open>a1\<close> with exactly that factor, and the
  grid that the reduction returns is the one that the triangulation receives (when the
  reduction raises, the run raises the same error and nothing is triangulated). Otherwise
  the reduction is not called and the triangulation receives \<open>a1\<close>.
\<close>

theorem C2_bin_factor:
  "shape array = (x, y) \<Longrightarrow> MAXIMUM_RESOLUTION cf \<noteq> 0 \<Longrightarrow>
   snd (trim_step st x y array) = Inr a1 \<Longrightarrow>
   bin_factor_of cf x y =
     py_round ((real x / MAXIMUM_RESOLUTION cf + real y / MAXIMUM_RESOLUTION cf) / 2) \<and>
   \<bar>(real x / MAXIMUM_RESOLUTION cf + real y / MAXIMUM_RESOLUTION cf) / 2
      - of_int (bin_factor_of cf x y)\<bar> \<le> 1 / 2 \<and>
   collect reduced (fst (convert_array_to_stl cf st array as_ascii ds False zo zs es out)) =
     (if 1 < bin_factor_of cf x y then [(a1, bin_factor_of cf x y)] else []) \<and>
   collect reduced (fst (convert_array_to_stl cf st array as_ascii ds False zo zs es out)) =
     (if 1 < py_round ((real x / MAXIMUM_RESOLUTION cf + real y / MAXIMUM_RESOLUTION cf) / 2)
      then [(a1, py_round ((real x / MAXIMUM_RESOLUTION cf + real y / MAXIMUM_RESOLUTION cf) / 2))]
      else []) \<and>
   collect triangulated (fst (convert_array_to_stl cf st array as_ascii ds False zo zs es out)) =
     (if 1 < py_round ((real x / MAXIMUM_RESOLUTION cf + real y / MAXIMUM_RESOLUTION cf) / 2)
      then (case call_reduce_resolution st a1
                   (py_round ((real x / MAXIMUM_RESOLUTION cf + real y / MAXIMUM_RESOLUTION cf) / 2)) of
              Inl e \<Rightarrow> []
            | Inr a2 \<Rightarrow> [a2])
      else [a1]) \<and>
   (1 < py_round ((real x / MAXIMUM_RESOLUTION cf + real y / MAXIMUM_RESOLUTION cf) / 2) \<longrightarrow>
    call_reduce_resolution st a1
      (py_round ((real x / MAXIMUM_RESOLUTION cf + real y / MAXIMUM_RESOLUTION cf) / 2)) = Inl e \<longrightarrow>
    snd (convert_array_to_stl cf st array as_ascii ds False zo zs es out) = Inl e)"
proof -
  assume s: "shape array = (x, y)" and m: "MAXIMUM_RESOLUTION cf \<noteq> 0"
    and t: "snd (trim_step st x y array) = Inr a1"
  have a: "bin_factor_of cf x y =
     py_round ((real x / MAXIMUM_RESOLUTION cf + real y / MAXIMUM_RESOLUTION cf) / 2)"
    by (simp add: bin_factor_of_def)
  have b: "\<bar>(real x / MAXIMUM_RESOLUTION cf + real y / MAXIMUM_RESOLUTION cf) / 2
      - of_int (bin_factor_of cf x y)\<bar> \<le> 1 / 2"
    unfolding a by (rule py_round_nearest)
  have c: "collect reduced
      (fst (convert_array_to_stl cf st array as_ascii ds False zo zs es out)) =
     (if 1 < bin_factor_of cf x y then [(a1, bin_factor_of cf x y)] else [])"
    using m t
    by (simp add: collect_convert [OF s] reduced_trim reduced_res reduced_out split: sum.splits)
  have d: "collect triangulated
      (fst (convert_array_to_stl cf st array as_ascii ds False zo zs es out)) =
     (if 1 < bin_factor_of cf x y
      then (case call_reduce_resolution st a1 (bin_factor_of cf x y) of
              Inl e \<Rightarrow> []
            | Inr a2 \<Rightarrow> [a2])
      else [a1])"
    using m t
    by (simp add: collect_convert [OF s] triangulated_trim triangulated_res triangulated_out
        snd_res_reduce snd_res_small split: sum.splits)
  have f: "snd (convert_array_to_stl cf st array as_ascii ds False zo zs es out) = Inl e"
    if "1 < bin_factor_of cf x y" "call_reduce_resolution st a1 (bin_factor_of cf x y) = Inl e"
    using that m t by (simp add: snd_convert [OF s] snd_res_reduce)
  from a b c d f show ?thesis unfolding a by blast
qed

theorem C2_bin_factor_witness:
  "shape example_grid = (2, 3) \<and> MAXIMUM_RESOLUTION example_conf \<noteq> 0 \<and>
   snd (trim_step modelled_stages 2 3 example_grid) = Inr example_grid \<and>
   bin_factor_of example_conf 2 3 = 2 \<and>
   collect reduced (fst (convert_array_to_stl example_conf modelled_stages example_grid False
       (ModelSize 200 300) False None 1 1 ''out'')) = [(example_grid, 2)] \<and>
   call_reduce_resolution modelled_stages example_grid 2 = Inr [[Some 3, Some (9 / 2)]] \<and>
   collect triangulated (fst (convert_array_to_stl example_conf modelled_stages example_grid
       False (ModelSize 200 300) False None 1 1 ''out'')) = [[[Some 3, Some (9 / 2)]]]"
proof -
  have r: "call_reduce_resolution modelled_stages example_grid 2 = Inr [[Some 3, Some (9 / 2)]]"
    by (simp add: modelled_stages_sel example_reduce)
  have p: "py_round ((real 2 / MAXIMUM_RESOLUTION example_conf
      + real 3 / MAXIMUM_RESOLUTION example_conf) / 2) = 2"
    using example_bin_factor by (simp add: bin_factor_of_def)
  from C2_bin_factor [OF example_shape example_conf_nonzero example_trim_step,
      where as_ascii = False and ds = "ModelSize 200 300" and zo = None and zs = 1 and es = 1
      and out = "''out''"]
  have "collect reduced (fst (convert_array_to_stl example_conf modelled_stages example_grid False
       (ModelSize 200 300) False None 1 1 ''out'')) = [(example_grid, 2)]"
    and "collect triangulated (fst (convert_array_to_stl example_conf modelled_stages example_grid
       False (ModelSize 200 300) False None 1 1 ''out'')) = [[[Some 3, Some (9 / 2)]]]"
    unfolding p r by simp_all
  with example_shape example_conf_nonzero example_trim_step example_bin_factor r
  show ?thesis by blast
qed

text \<open>
  C4. \<open>convert_array_to_stl\<close> runs its stages in the order border trimming, resolution
  reduction, triangulation, serialization: in every run, also one that a stage aborts, the
  stage calls happen in strictly increasing order of that list, so no stage runs before an
  earlier one and none runs twice; and a run that returns has called triangulation and then
  serialization, after the trimming (when both dimensions exceed 1) and the reduction (when
  \<open>max_res\<close> is false and the bin factor exceeds 1).
\<close>

theorem C4_stage_order:
  "sorted_wrt (<) (collect stage_rank
     (fst (convert_array_to_stl cf st array as_ascii ds max_res zo zs es out))) \<and>
   (snd (convert_array_to_stl cf st array as_ascii ds max_res zo zs es out) = Inr p \<longrightarrow>
    shape array = (x, y) \<longrightarrow>
    collect stage_rank (fst (convert_array_to_stl cf st array as_ascii ds max_res zo zs es out)) =
      (if 1 < x \<and> 1 < y then [0] else []) @
      (if \<not> max_res \<and> 1 < bin_factor_of cf x y then [1] else []) @ [2, 3])"
proof -
  obtain x' y' where s: "shape array = (x', y')" by (cases "shape array")
  have a: "sorted_wrt (<) (collect stage_rank
     (fst (convert_array_to_stl cf st array as_ascii ds max_res zo zs es out)))"
    unfolding collect_convert [OF s] ranks_trim ranks_res ranks_out
    by (simp split: sum.splits)
  have b: "collect stage_rank (fst (convert_array_to_stl cf st array as_ascii ds max_res zo zs es out)) =
      (if 1 < x \<and> 1 < y then [0] else []) @
      (if \<not> max_res \<and> 1 < bin_factor_of cf x y then [1] else []) @ [2, 3]"
    if r: "snd (convert_array_to_stl cf st array as_ascii ds max_res zo zs es out) = Inr p"
      and t: "shape array = (x, y)"
    using r unfolding collect_convert [OF t] ranks_trim ranks_res ranks_out snd_convert [OF t]
    by (auto simp: resolution_step_eq output_step_eq split: sum.splits if_splits)
  from a b show ?thesis by blast
qed

theorem C4_stage_order_witness:
  "snd (convert_array_to_stl example_conf modelled_stages example_grid False
       (ModelSize 200 300) False None 1 1 ''out'') = Inr ''out'' \<and>
   shape example_grid = (2, 3) \<and>
   collect stage_rank (fst (convert_array_to_stl example_conf modelled_stages example_grid False
       (ModelSize 200 300) False None 1 1 ''out'')) = [0, 1, 2, 3]"
proof -
  have r: "snd (convert_array_to_stl example_conf modelled_stages example_grid False
       (ModelSize 200 300) False None 1 1 ''out'') = Inr ''out''"
    by (simp add: snd_convert [OF example_shape] example_trim_step resolution_step_eq
        example_conf_nonzero example_bin_factor output_step_eq modelled_stages_sel)
  from C4_stage_order [of example_conf modelled_stages example_grid False "ModelSize 200 300"
      False None 1 1 "''out''" "''out''" 2 3] r example_shape example_bin_factor
  show ?thesis by simp
qed

text \<open>
  C7. For every grid, with \<open>max_res\<close> true \<open>convert_array_to_stl\<close> never calls the
  resolution reduction, and the grid that the trimming step returns reaches the
  triangulation as it is. The size of the grid decides one thing only, whether the warning
  is logged (exactly when x * y exceeds the threshold): the result of the run is that of
  trimming, triangulating and saving, whatever the size and the configured limits, so no
  error is raised on account of size. When the trimming, the triangulation and the
  serializer return, the run goes on to the end: it triangulates the trimmed grid, calls the
  serializer once, on the triangles, the output file and the encoding flag, and returns the
  path that the serializer returns; its trace is the trimming call (when both dimensions
  exceed 1), the warning (when the size exceeds the threshold), the triangulation, the
  saving and its two log records.
\<close>

theorem C7_max_res:
  "shape array = (x, y) \<Longrightarrow>
   collect reduced (fst (convert_array_to_stl cf st array as_ascii ds True zo zs es out)) = [] \<and>
   snd (convert_array_to_stl cf st array as_ascii ds True zo zs es out) =
     (case snd (trim_step st x y array) of
        Inl e \<Rightarrow> Inl e
      | Inr a1 \<Rightarrow> snd (output_step st as_ascii ds zo zs es out a1)) \<and>
   (snd (trim_step st x y array) = Inr a1 \<longrightarrow>
      collect triangulated
        (fst (convert_array_to_stl cf st array as_ascii ds True zo zs es out)) = [a1] \<and>
      (Log_warning_max_res \<in>
         set (fst (convert_array_to_stl cf st array as_ascii ds True zo zs es out))
       \<longleftrightarrow> PERFORMANCE_WARNING_THRESHOLD cf < real (x * y))) \<and>
   (snd (trim_step st x y array) = Inr a1 \<longrightarrow>
    call_compute_all_triangles st a1 ds zo zs es = Inr m \<longrightarrow>
    call_save_to_stl_file st m out as_ascii = Inr p \<longrightarrow>
      snd (convert_array_to_stl cf st array as_ascii ds True zo zs es out) = Inr p \<and>
      collect saved (fst (convert_array_to_stl cf st array as_ascii ds True zo zs es out)) =
        [(m, out, as_ascii)] \<and>
      fst (convert_array_to_stl cf st array as_ascii ds True zo zs es out) =
        (if 1 < x \<and> 1 < y then [Trim array] else []) @
        (if PERFORMANCE_WARNING_THRESHOLD cf < real (x * y) then [Log_warning_max_res] else []) @
        [Triangulate a1 ds zo zs es, Log_debug_saving, Save m out as_ascii, Log_info_success p])"
proof -
  assume s: "shape array = (x, y)"
  have a: "collect reduced
      (fst (convert_array_to_stl cf st array as_ascii ds True zo zs es out)) = []"
    by (simp add: collect_convert [OF s] reduced_trim reduced_res reduced_out split: sum.splits)
  have b: "snd (convert_array_to_stl cf st array as_ascii ds True zo zs es out) =
    (case snd (trim_step st x y array) of Inl e \<Rightarrow> Inl e
     | Inr a1 \<Rightarrow> snd (output_step st as_ascii ds zo zs es out a1))"
    by (simp add: snd_convert [OF s] snd_res_max split: sum.splits)
  have c: "collect triangulated
      (fst (convert_array_to_stl cf st array as_ascii ds True zo zs es out)) = [a1]"
    if "snd (trim_step st x y array) = Inr a1"
    using that
    by (simp add: collect_convert [OF s] triangulated_trim triangulated_res triangulated_out
        snd_res_max)
  have o: "output_step st as_ascii ds zo zs es out a1 =
      ([Triangulate a1 ds zo zs es, Log_debug_saving, Save m out as_ascii, Log_info_success p],
       Inr p)"
    if "call_compute_all_triangles st a1 ds zo zs es = Inr m"
      "call_save_to_stl_file st m out as_ascii = Inr p"
    using that by (simp add: output_step_eq)
  have d: "snd (convert_array_to_stl cf st array as_ascii ds True zo zs es out) = Inr p"
    if "snd (trim_step st x y array) = Inr a1"
      "call_compute_all_triangles st a1 ds zo zs es = Inr m"
      "call_save_to_stl_file st m out as_ascii = Inr p"
    using that(1) by (simp add: b o [OF that(2) that(3)])
  have f: "fst (convert_array_to_stl cf st array as_ascii ds True zo zs es out) =
        (if 1 < x \<and> 1 < y then [Trim array] else []) @
        (if PERFORMANCE_WARNING_THRESHOLD cf < real (x * y) then [Log_warning_max_res] else []) @
        [Triangulate a1 ds zo zs es, Log_debug_saving, Save m out as_ascii, Log_info_success p]"
    if "snd (trim_step st x y array) = Inr a1"
      "call_compute_all_triangles st a1 ds zo zs es = Inr m"
      "call_save_to_stl_file st m out as_ascii = Inr p"
    using that(1)
    by (simp add: fst_convert [OF s] snd_res_max o [OF that(2) that(3)] fst_trim_step
        fst_res_max)
  have g: "collect saved (fst (convert_array_to_stl cf st array as_ascii ds True zo zs es out)) =
        [(m, out, as_ascii)]"
    if "snd (trim_step st x y array) = Inr a1"
      "call_compute_all_triangles st a1 ds zo zs es = Inr m"
      "call_save_to_stl_file st m out as_ascii = Inr p"
    unfolding f [OF that] by (simp add: collect_append)
  from a b c d f g warning_convert [OF s] show ?thesis by blast
qed

theorem C7_max_res_witness:
  "shape example_grid = (2, 3) \<and>
   snd (trim_step modelled_stages 2 3 example_grid) = Inr example_grid \<and>
   call_compute_all_triangles modelled_stages example_grid (ModelSize 200 300) None 1 1 =
     Inr (compute_all_triangles example_grid (ModelSize 200 300) None 1 1) \<and>
   call_save_to_stl_file modelled_stages
     (compute_all_triangles example_grid (ModelSize 200 300) None 1 1) ''out'' False = Inr ''out'' \<and>
   PERFORMANCE_WARNING_THRESHOLD example_conf < real (2 * 3) \<and>
   collect reduced (fst (convert_array_to_stl example_conf modelled_stages example_grid False
       (ModelSize 200 300) True None 1 1 ''out'')) = [] \<and>
   snd (convert_array_to_stl example_conf modelled_stages example_grid False
       (ModelSize 200 300) True None 1 1 ''out'') = Inr ''out'' \<and>
   collect triangulated (fst (convert_array_to_stl example_conf modelled_stages example_grid
       False (ModelSize 200 300) True None 1 1 ''out'')) = [example_grid] \<and>
   Log_warning_max_res \<in> set (fst (convert_array_to_stl example_conf modelled_stages
       example_grid False (ModelSize 200 300) True None 1 1 ''out'')) \<and>
   collect saved (fst (convert_array_to_stl example_conf modelled_stages example_grid False
       (ModelSize 200 300) True None 1 1 ''out'')) =
     [(compute_all_triangles example_grid (ModelSize 200 300) None 1 1, ''out'', False)]"
proof -
  have t: "PERFORMANCE_WARNING_THRESHOLD example_conf < real (2 * 3)"
    by (simp add: example_conf_def)
  have c: "call_compute_all_triangles modelled_stages example_grid (ModelSize 200 300) None 1 1 =
     Inr (compute_all_triangles example_grid (ModelSize 200 300) None 1 1)"
    by (simp add: modelled_stages_sel)
  have v: "call_save_to_stl_file modelled_stages
     (compute_all_triangles example_grid (ModelSize 200 300) None 1 1) ''out'' False = Inr ''out''"
    by (simp add: modelled_stages_sel)
  note g = C7_max_res [OF example_shape, where cf = example_conf and st = modelled_stages
      and as_ascii = False and ds = "ModelSize 200 300" and zo = None and zs = 1 and es = 1
      and out = "''out''" and ?a1.0 = example_grid
      and m = "compute_all_triangles example_grid (ModelSize 200 300) None 1 1"
      and p = "''out''"]
  from g example_trim_step c v t
  have "collect reduced (fst (convert_array_to_stl example_conf modelled_stages example_grid False
       (ModelSize 200 300) True None 1 1 ''out'')) = []"
    and "snd (convert_array_to_stl example_conf modelled_stages example_grid False
       (ModelSize 200 300) True None 1 1 ''out'') = Inr ''out''"
    and "collect triangulated (fst (convert_array_to_stl example_conf modelled_stages example_grid
       False (ModelSize 200 300) True None 1 1 ''out'')) = [example_grid]"
    and "Log_warning_max_res \<in> set (fst (convert_array_to_stl example_conf modelled_stages
       example_grid False (ModelSize 200 300) True None 1 1 ''out''))"
    and "collect saved (fst (convert_array_to_stl example_conf modelled_stages example_grid False
       (ModelSize 200 300) True None 1 1 ''out'')) =
     [(compute_all_triangles example_grid (ModelSize 200 300) None 1 1, ''out'', False)]"
    by blast+
  with example_shape example_trim_step c v t show ?thesis by blast
qed

text \<open>
  C10. For every input array with rows at most 1 or columns at most 1,
  \<open>convert_array_to_stl\<close> does not call the border trimming and hands the array as it is
  to the later stages; the trimming is called (once, on the input array) exactly when both
  dimensions of the input array are greater than 1.
\<close>

theorem C10_trim_guard:
  "shape array = (x, y) \<Longrightarrow>
   collect trimmed (fst (convert_array_to_stl cf st array as_ascii ds max_res zo zs es out)) =
     (if 1 < x \<and> 1 < y then [array] else []) \<and>
   (x \<le> 1 \<or> y \<le> 1 \<longrightarrow>
      convert_array_to_stl cf st array as_ascii ds max_res zo zs es out =
        io_bind (resolution_step cf st max_res x y array)
          (output_step st as_ascii ds zo zs es out))"
proof -
  assume s: "shape array = (x, y)"
  have a: "collect trimmed
      (fst (convert_array_to_stl cf st array as_ascii ds max_res zo zs es out)) =
     (if 1 < x \<and> 1 < y then [array] else [])"
    by (simp add: collect_convert [OF s] trimmed_trim trimmed_res trimmed_out split: sum.splits)
  have b: "convert_array_to_stl cf st array as_ascii ds max_res zo zs es out =
        io_bind (resolution_step cf st max_res x y array)
          (output_step st as_ascii ds zo zs es out)" if "x \<le> 1 \<or> y \<le> 1"
  proof -
    from that have "trim_step st x y array = ([], Inr array)"
      by (auto simp: trim_step_eq)
    then show ?thesis by (simp add: convert_eq [OF s] io_bind_return)
  qed
  from a b show ?thesis by blast
qed

theorem C10_trim_guard_witness:
  "shape example_row = (1, 3) \<and> (1::nat) \<le> 1 \<and>
   collect trimmed (fst (convert_array_to_stl example_conf modelled_stages example_row False
       (ModelSize 200 300) True None 1 1 ''out'')) = [] \<and>
   collect triangulated (fst (convert_array_to_stl example_conf modelled_stages example_row False
       (ModelSize 200 300) True None 1 1 ''out'')) = [example_row]"
proof -
  have s: "shape example_row = (1, 3)"
    by (simp add: example_row_def shape_def)
  have t: "collect triangulated
      (fst (io_bind (resolution_step example_conf modelled_stages True 1 3 example_row)
        (output_step modelled_stages False (ModelSize 200 300) None 1 1 ''out''))) = [example_row]"
    by (simp add: fst_io_bind collect_append triangulated_res triangulated_out snd_res_max)
  have l: "(1::nat) \<le> 1" by simp
  note g = C10_trim_guard [OF s, of example_conf modelled_stages False "ModelSize 200 300" True
      None 1 1 "''out''"]
  from g [THEN conjunct1] have a: "collect trimmed (fst (convert_array_to_stl example_conf modelled_stages
      example_row False (ModelSize 200 300) True None 1 1 ''out'')) = []"
    by simp
  from g [THEN conjunct2] have b: "convert_array_to_stl example_conf modelled_stages example_row False
      (ModelSize 200 300) True None 1 1 ''out'' =
    io_bind (resolution_step example_conf modelled_stages True 1 3 example_row)
      (output_step modelled_stages False (ModelSize 200 300) None 1 1 ''out'')"
    by simp
  from s l a t show ?thesis unfolding b by blast
qed

subsection \<open>Resolution reduction\<close>

lemma ceil_div_one: "ceil_div n (Suc 0) = n"
  by (simp add: ceil_div_def)

lemma block_mean_single: "block_mean [c] = c"
  by (cases c) (simp_all add: block_mean_def)

lemma take_one_drop: "i < length xs \<Longrightarrow> take (Suc 0) (drop i xs) = [xs ! i]"
  by (simp add: take_Suc_conv_app_nth)

lemma block_cells_one:
  "i < length g \<Longrightarrow> j < length (g ! i) \<Longrightarrow> block_cells g (Suc 0) i j = [g ! i ! j]"
  by (simp add: block_cells_def take_one_drop)

lemma rectangular_nth: "rectangular g \<Longrightarrow> i < length g \<Longrightarrow> length (g ! i) = snd (shape g)"
  by (simp add: rectangular_def list_all_length)

lemma bin_grid_one: "rectangular g \<Longrightarrow> bin_grid g 1 = g"
proof -
  assume r: "rectangular g"
  have row: "map (\<lambda>j. block_mean (block_cells g (Suc 0) i j)) [0 ..< snd (shape g)] = g ! i"
    if "i < length g" for i
  proof -
    have l: "length (g ! i) = snd (shape g)"
      by (rule rectangular_nth [OF r that])
    have "map (\<lambda>j. block_mean (block_cells g (Suc 0) i j)) [0 ..< length (g ! i)] =
          map (\<lambda>j. g ! i ! j) [0 ..< length (g ! i)]"
      using that by (simp add: block_cells_one block_mean_single)
    also have "\<dots> = g ! i" by (rule map_nth)
    finally show ?thesis unfolding l .
  qed
  have "bin_grid g 1 = map (\<lambda>i. g ! i) [0 ..< length g]"
  proof -
    have "fst (shape g) = length g" by (simp add: shape_def)
    then show ?thesis
      by (simp add: bin_grid_def ceil_div_one row split_beta)
  qed
  then show ?thesis by (simp add: map_nth)
qed

lemma example_rectangular: "rectangular example_grid"
  by (simp add: rectangular_def example_grid_def shape_def)

lemma example_coarse_nonzero: "MAXIMUM_RESOLUTION example_conf_coarse \<noteq> 0"
  by (simp add: example_conf_coarse_def)

lemma example_coarse_bin_factor: "bin_factor_of example_conf_coarse 2 3 = 0"
  by (simp add: bin_factor_of_def example_conf_coarse_def py_round_def Let_def)

text \<open>
  C9. Resolution reduction with bin factor 1 is the identity: \<open>reduce_resolution g 1 = g\<close>
  for every grid, as for every bin factor that is at most 1, and the binning itself, run
  with blocks of 1 x 1 on a rectangular grid, also gives the grid back. In
  \<open>convert_array_to_stl\<close> (\<open>max_res\<close> false, a non-zero \<open>MAXIMUM_RESOLUTION\<close>), a grid whose
  computed bin factor is at most 1 is not reduced: the grid that the trimming step returns
  is the one the triangulation receives.
\<close>

theorem C9_reduce_identity:
  "reduce_resolution g 1 = g \<and>
   (bin_factor \<le> 1 \<longrightarrow> reduce_resolution g bin_factor = g) \<and>
   (rectangular g \<longrightarrow> bin_grid g 1 = g) \<and>
   (shape array = (x, y) \<longrightarrow> MAXIMUM_RESOLUTION cf \<noteq> 0 \<longrightarrow> bin_factor_of cf x y \<le> 1 \<longrightarrow>
    snd (trim_step st x y array) = Inr a1 \<longrightarrow>
      collect reduced
        (fst (convert_array_to_stl cf st array as_ascii ds False zo zs es out)) = [] \<and>
      collect triangulated
        (fst (convert_array_to_stl cf st array as_ascii ds False zo zs es out)) = [a1])"
proof -
  have a: "reduce_resolution g 1 = g"
    by (simp add: reduce_resolution_def)
  have b: "bin_factor \<le> 1 \<longrightarrow> reduce_resolution g bin_factor = g"
    by (simp add: reduce_resolution_def)
  have c: "collect reduced
        (fst (convert_array_to_stl cf st array as_ascii ds False zo zs es out)) = [] \<and>
      collect triangulated
        (fst (convert_array_to_stl cf st array as_ascii ds False zo zs es out)) = [a1]"
    if "shape array = (x, y)" "MAXIMUM_RESOLUTION cf \<noteq> 0" "bin_factor_of cf x y \<le> 1"
      "snd (trim_step st x y array) = Inr a1"
    using that
    by (simp add: collect_convert reduced_trim reduced_res reduced_out
        triangulated_trim triangulated_res triangulated_out snd_res_small)
  from a b c bin_grid_one show ?thesis by blast
qed

theorem C9_reduce_identity_witness:
  "(0::int) \<le> 1 \<and> rectangular example_grid \<and> shape example_grid = (2, 3) \<and>
   MAXIMUM_RESOLUTION example_conf_coarse \<noteq> 0 \<and> bin_factor_of example_conf_coarse 2 3 \<le> 1 \<and>
   snd (trim_step modelled_stages 2 3 example_grid) = Inr example_grid \<and>
   reduce_resolution example_grid 1 = example_grid \<and>
   reduce_resolution example_grid 0 = example_grid \<and>
   bin_grid example_grid 1 = example_grid \<and>
   collect reduced (fst (convert_array_to_stl example_conf_coarse modelled_stages example_grid
       False (ModelSize 200 300) False None 1 1 ''out'')) = [] \<and>
   collect triangulated (fst (convert_array_to_stl example_conf_coarse modelled_stages
       example_grid False (ModelSize 200 300) False None 1 1 ''out'')) = [example_grid]"
proof -
  have l: "bin_factor_of example_conf_coarse 2 3 \<le> 1"
    by (simp add: example_coarse_bin_factor)
  from C9_reduce_identity [where g = example_grid and bin_factor = 0 and array = example_grid
      and x = 2 and y = 3 and cf = example_conf_coarse and st = modelled_stages
      and ?a1.0 = example_grid and as_ascii = False and ds = "ModelSize 200 300" and zo = None
      and zs = 1 and es = 1 and out = "''out''"]
    example_rectangular example_shape example_coarse_nonzero l example_trim_step
  show ?thesis by simp
qed

subsection \<open>Border trimming\<close>

lemma takeWhile_stops:
  assumes "i < length xs" "\<not> P (xs ! i)"
  shows "length (takeWhile P xs) \<le> i"
proof (rule ccontr)
  assume "\<not> length (takeWhile P xs) \<le> i"
  then have l: "i < length (takeWhile P xs)" by simp
  then have "takeWhile P xs ! i = xs ! i" by (rule takeWhile_nth)
  moreover from l have "takeWhile P xs ! i \<in> set (takeWhile P xs)" by (rule nth_mem)
  ultimately have "P (xs ! i)" by (auto dest: set_takeWhileD)
  with assms show False by simp
qed

lemma takeWhile_stops_at:
  assumes "i < length xs" "\<not> P (xs ! i)"
  shows "\<not> P (xs ! length (takeWhile P xs))"
proof -
  from takeWhile_stops [where P = P, OF assms] assms(1) have "length (takeWhile P xs) < length xs" by simp
  then show ?thesis by (rule nth_length_takeWhile)
qed

lemma leading_upt:
  assumes "j < n" "\<not> P j"
  shows "length (takeWhile P [0 ..< n]) \<le> j" and "\<not> P (length (takeWhile P [0 ..< n]))"
proof -
  have i: "j < length [0 ..< n]" and p: "\<not> P ([0 ..< n] ! j)" using assms by simp_all
  show le: "length (takeWhile P [0 ..< n]) \<le> j" by (rule takeWhile_stops [where P = P, OF i p])
  from takeWhile_stops_at [where P = P, OF i p] le assms(1)
  show "\<not> P (length (takeWhile P [0 ..< n]))" by simp
qed

lemma trailing_upt:
  assumes "j < n" "\<not> P j"
  shows "length (takeWhile P (rev [0 ..< n])) \<le> n - 1 - j"
    and "\<not> P (n - 1 - length (takeWhile P (rev [0 ..< n])))"
proof -
  have i: "n - 1 - j < length (rev [0 ..< n])" using assms by simp
  have "rev [0 ..< n] ! (n - 1 - j) = j" using assms by (simp add: rev_nth)
  then have p: "\<not> P (rev [0 ..< n] ! (n - 1 - j))" using assms by simp
  show le: "length (takeWhile P (rev [0 ..< n])) \<le> n - 1 - j"
    by (rule takeWhile_stops [where P = P, OF i p])
  then have "length (takeWhile P (rev [0 ..< n])) < n" using assms by simp
  then have "rev [0 ..< n] ! length (takeWhile P (rev [0 ..< n])) =
      n - 1 - length (takeWhile P (rev [0 ..< n]))"
    by (simp add: rev_nth)
  with takeWhile_stops_at [where P = P, OF i p]
  show "\<not> P (n - 1 - length (takeWhile P (rev [0 ..< n])))" by simp
qed

lemma trim_rows_subset: "set (trim_rows g) \<subseteq> set g"
proof -
  have "set (trim_rows g) \<subseteq> set (dropWhile empty_line g)"
    unfolding trim_rows_def by (auto dest: set_dropWhileD)
  then show ?thesis by (auto dest: set_dropWhileD)
qed

lemma trim_rows_borders:
  assumes "has_data g"
  shows "trim_rows g \<noteq> []" "\<not> empty_line (hd (trim_rows g))" "\<not> empty_line (last (trim_rows g))"
proof -
  let ?d = "dropWhile empty_line g"
  let ?e = "dropWhile empty_line (rev ?d)"
  from assms have d: "?d \<noteq> []" by (auto simp: has_data_def)
  then have hd: "\<not> empty_line (hd ?d)" by (rule hd_dropWhile)
  from d have "hd ?d \<in> set (rev ?d)" by simp
  with hd have e: "?e \<noteq> []" by auto
  then have he: "\<not> empty_line (hd ?e)" by (rule hd_dropWhile)
  show "trim_rows g \<noteq> []" using e by (simp add: trim_rows_def)
  show "\<not> empty_line (last (trim_rows g))"
    using e he by (simp add: trim_rows_def last_rev)
  have "rev (rev ?d) = rev ?e @ rev (takeWhile empty_line (rev ?d))"
    by (simp only: rev_append [symmetric] takeWhile_dropWhile_id)
  then have "?d = rev ?e @ rev (takeWhile empty_line (rev ?d))"
    by (simp only: rev_rev_ident)
  then have "hd ?d = hd (rev ?e @ rev (takeWhile empty_line (rev ?d)))" by (rule arg_cong)
  with e have "hd ?d = hd (rev ?e)" by simp
  with hd show "\<not> empty_line (hd (trim_rows g))" by (simp add: trim_rows_def)
qed

lemma trim_rows_all_empty: "\<not> has_data g \<Longrightarrow> trim_rows g = []"
  by (auto simp: has_data_def trim_rows_def dest: set_dropWhileD)


lemma rectangular_rows: "rectangular g \<Longrightarrow> r \<in> set g \<Longrightarrow> length r = snd (shape g)"
  by (simp add: rectangular_def list_all_iff)

lemma shape_nonempty: "g \<noteq> [] \<Longrightarrow> shape g = (length g, length (hd g))"
  by (cases g) (simp_all add: shape_def)

lemma trim_rows_rectangular:
  assumes "rectangular g" "has_data g"
  shows "rectangular (trim_rows g)" "snd (shape (trim_rows g)) = snd (shape g)"
proof -
  have ne: "trim_rows g \<noteq> []" by (rule trim_rows_borders(1) [OF assms(2)])
  then have "hd (trim_rows g) \<in> set g" using trim_rows_subset [of g] by auto
  then have "length (hd (trim_rows g)) = snd (shape g)"
    by (rule rectangular_rows [OF assms(1)])
  then show c: "snd (shape (trim_rows g)) = snd (shape g)"
    by (simp add: shape_nonempty [OF ne])
  show "rectangular (trim_rows g)"
    unfolding rectangular_def list_all_iff c
    using trim_rows_subset [of g] rectangular_rows [OF assms(1)] by auto
qed

lemma empty_line_nth: "\<not> empty_line r \<Longrightarrow> \<exists>j < length r. r ! j \<noteq> None"
  by (auto simp: empty_line_def list_all_length)

lemma data_col: "r \<in> set h \<Longrightarrow> r ! j \<noteq> None \<Longrightarrow> \<not> empty_col h j"
  by (auto simp: empty_col_def list_all_iff)

lemma empty_col_row: "\<not> empty_col h j \<Longrightarrow> \<exists>r \<in> set h. r ! j \<noteq> None"
  by (auto simp: empty_col_def list_all_iff)

lemma data_within:
  assumes "r \<in> set h" "j < snd (shape h)" "r ! j \<noteq> None"
  shows "leading_cols h \<le> j" "trailing_cols h \<le> snd (shape h) - 1 - j"
    "\<not> empty_col h (leading_cols h)"
    "\<not> empty_col h (snd (shape h) - 1 - trailing_cols h)"
proof -
  have c: "\<not> empty_col h j" by (rule data_col [OF assms(1) assms(3)])
  show "leading_cols h \<le> j" unfolding leading_cols_def
    by (rule leading_upt(1) [where P = "empty_col h", OF assms(2) c])
  show "trailing_cols h \<le> snd (shape h) - 1 - j" unfolding trailing_cols_def
    by (rule trailing_upt(1) [where P = "empty_col h", OF assms(2) c])
  show "\<not> empty_col h (leading_cols h)" unfolding leading_cols_def
    by (rule leading_upt(2) [where P = "empty_col h", OF assms(2) c])
  show "\<not> empty_col h (snd (shape h) - 1 - trailing_cols h)" unfolding trailing_cols_def
    by (rule trailing_upt(2) [where P = "empty_col h", OF assms(2) c])
qed

lemma kept_line:
  assumes "rectangular h" "r \<in> set h" "\<not> empty_line r"
  shows "1 \<le> kept_cols h"
    and "\<not> empty_line (take (kept_cols h) (drop (leading_cols h) r))"
    and "length (take (kept_cols h) (drop (leading_cols h) r)) = kept_cols h"
proof -
  have l: "length r = snd (shape h)" by (rule rectangular_rows [OF assms(1) assms(2)])
  from empty_line_nth [OF assms(3)] obtain j where j: "j < length r" "r ! j \<noteq> None" by blast
  from j(1) l have jn: "j < snd (shape h)" by simp
  note w = data_within [OF assms(2) jn j(2)]
  from w(1) w(2) jn show k: "1 \<le> kept_cols h" by (simp add: kept_cols_def)
  from w(1) w(2) jn have i: "j - leading_cols h < kept_cols h" by (simp add: kept_cols_def)
  from w(1) w(2) jn l
  show len: "length (take (kept_cols h) (drop (leading_cols h) r)) = kept_cols h"
    by (simp add: kept_cols_def)
  from i w(1) j(1) have "take (kept_cols h) (drop (leading_cols h) r) ! (j - leading_cols h) = r ! j"
    by simp
  with j(2) i len show "\<not> empty_line (take (kept_cols h) (drop (leading_cols h) r))"
    by (auto simp: empty_line_def list_all_length)
qed

lemma trim_cols_map:
  "trim_cols h = map (\<lambda>r. take (kept_cols h) (drop (leading_cols h) r)) h"
  by (simp add: trim_cols_def kept_cols_def)


lemma trim_cols_borders:
  assumes r: "rectangular h" and ne: "h \<noteq> []"
    and f: "\<not> empty_line (hd h)" and l: "\<not> empty_line (last h)"
  shows "shape (trim_cols h) = (length h, kept_cols h)" "1 \<le> kept_cols h"
    "\<not> empty_line (hd (trim_cols h))" "\<not> empty_line (last (trim_cols h))"
    "\<not> empty_col (trim_cols h) 0" "\<not> empty_col (trim_cols h) (kept_cols h - 1)"
proof -
  from ne have hm: "hd h \<in> set h" and lm: "last h \<in> set h" by simp_all
  show k: "1 \<le> kept_cols h" by (rule kept_line(1) [OF r hm f])
  from ne have "hd (trim_cols h) = take (kept_cols h) (drop (leading_cols h) (hd h))"
    by (simp add: trim_cols_map hd_map)
  with kept_line(2,3) [OF r hm f]
  show "\<not> empty_line (hd (trim_cols h))" and len: "shape (trim_cols h) = (length h, kept_cols h)"
    using ne by (simp_all add: shape_nonempty trim_cols_map)
  from ne have "last (trim_cols h) = take (kept_cols h) (drop (leading_cols h) (last h))"
    by (simp add: trim_cols_map last_map)
  with kept_line(2) [OF r lm l] show "\<not> empty_line (last (trim_cols h))" by simp
  have ln: "length (hd h) = snd (shape h)" by (rule rectangular_rows [OF r hm])
  from empty_line_nth [OF f] obtain j where j: "j < length (hd h)" "hd h ! j \<noteq> None" by blast
  from j(1) ln have jn: "j < snd (shape h)" by simp
  note w = data_within [OF hm jn j(2)]
  from empty_col_row [OF w(3)] obtain a where a: "a \<in> set h" "a ! leading_cols h \<noteq> None"
    by blast
  from w(1) jn rectangular_rows [OF r a(1)] have "leading_cols h < length a" by simp
  with a(2) k have "take (kept_cols h) (drop (leading_cols h) a) ! 0 \<noteq> None" by simp
  with a(1) show "\<not> empty_col (trim_cols h) 0"
    unfolding trim_cols_map by (auto simp: empty_col_def list_all_iff)
  from empty_col_row [OF w(4)] obtain b
    where b: "b \<in> set h" "b ! (snd (shape h) - 1 - trailing_cols h) \<noteq> None" by blast
  have e: "leading_cols h + (kept_cols h - 1) = snd (shape h) - 1 - trailing_cols h"
    using k w(1) w(2) jn by (simp add: kept_cols_def)
  from w(2) jn rectangular_rows [OF r b(1)] e
  have "leading_cols h + (kept_cols h - 1) < length b" by simp
  with b(2) k e have "take (kept_cols h) (drop (leading_cols h) b) ! (kept_cols h - 1) \<noteq> None"
    by simp
  with b(1) show "\<not> empty_col (trim_cols h) (kept_cols h - 1)"
    unfolding trim_cols_map by (auto simp: empty_col_def list_all_iff)
qed

lemma remove_all_empty: "\<not> has_data g \<Longrightarrow> remove_empty_first_and_last_rows_and_cols g = g"
  by (simp add: remove_empty_first_and_last_rows_and_cols_def trim_candidate_def
      trim_rows_all_empty trim_cols_def shape_def)

lemma remove_cases:
  "remove_empty_first_and_last_rows_and_cols g = trim_candidate g \<or>
   remove_empty_first_and_last_rows_and_cols g = g"
  by (simp add: remove_empty_first_and_last_rows_and_cols_def Let_def split: prod.splits)

lemma remove_nonempty:
  "shape g = (x, y) \<Longrightarrow> 1 \<le> x \<Longrightarrow> 1 \<le> y \<Longrightarrow>
   1 \<le> fst (shape (remove_empty_first_and_last_rows_and_cols g)) \<and>
   1 \<le> snd (shape (remove_empty_first_and_last_rows_and_cols g))"
  by (auto simp: remove_empty_first_and_last_rows_and_cols_def Let_def split: prod.splits)

lemma remove_with_data:
  assumes "rectangular g" "has_data g"
  shows "remove_empty_first_and_last_rows_and_cols g = trim_candidate g"
    and "\<not> empty_line (hd (trim_candidate g))" "\<not> empty_line (last (trim_candidate g))"
    and "\<not> empty_col (trim_candidate g) 0"
    and "\<not> empty_col (trim_candidate g) (snd (shape (trim_candidate g)) - 1)"
proof -
  note rb = trim_rows_borders [OF assms(2)]
  note rr = trim_rows_rectangular [OF assms]
  note cb = trim_cols_borders [OF rr(1) rb]
  from rb(1) cb(1) cb(2)
  show "remove_empty_first_and_last_rows_and_cols g = trim_candidate g"
    by (cases "trim_rows g")
      (simp_all add: remove_empty_first_and_last_rows_and_cols_def trim_candidate_def)
  from cb(3) show "\<not> empty_line (hd (trim_candidate g))" by (simp add: trim_candidate_def)
  from cb(4) show "\<not> empty_line (last (trim_candidate g))" by (simp add: trim_candidate_def)
  from cb(5) show "\<not> empty_col (trim_candidate g) 0" by (simp add: trim_candidate_def)
  from cb(6) cb(1) show "\<not> empty_col (trim_candidate g) (snd (shape (trim_candidate g)) - 1)"
    by (simp add: trim_candidate_def)
qed


lemma trim_rows_decomposition:
  "g = takeWhile empty_line g @ trim_rows g @
       rev (takeWhile empty_line (rev (dropWhile empty_line g)))"
proof -
  let ?d = "dropWhile empty_line g"
  have "rev (rev ?d) = rev (dropWhile empty_line (rev ?d)) @ rev (takeWhile empty_line (rev ?d))"
    by (simp only: rev_append [symmetric] takeWhile_dropWhile_id)
  then have "?d = trim_rows g @ rev (takeWhile empty_line (rev ?d))"
    by (simp only: rev_rev_ident trim_rows_def)
  moreover have "g = takeWhile empty_line g @ ?d" by simp
  ultimately show ?thesis by simp
qed

lemma removed_rows_empty:
  "list_all empty_line (takeWhile empty_line g)"
  "list_all empty_line (rev (takeWhile empty_line (rev (dropWhile empty_line g))))"
  by (auto simp: list_all_iff dest: set_takeWhileD)

lemma takeWhile_prefix_holds:
  assumes "i < length (takeWhile P xs)" shows "P (xs ! i)"
proof -
  from assms have "takeWhile P xs ! i = xs ! i" by (rule takeWhile_nth)
  moreover from assms have "takeWhile P xs ! i \<in> set (takeWhile P xs)" by (rule nth_mem)
  ultimately show ?thesis by (auto dest: set_takeWhileD)
qed

lemma removed_cols_empty:
  assumes "j < snd (shape h)"
    and "j < leading_cols h \<or> snd (shape h) - trailing_cols h \<le> j"
  shows "empty_col h j"
proof -
  from assms(2) show ?thesis
  proof
    assume a: "j < leading_cols h"
    then have "empty_col h ([0 ..< snd (shape h)] ! j)"
      unfolding leading_cols_def by (rule takeWhile_prefix_holds)
    with assms(1) show ?thesis by simp
  next
    assume a: "snd (shape h) - trailing_cols h \<le> j"
    with assms(1) have i: "snd (shape h) - 1 - j < trailing_cols h" by simp
    then have "empty_col h (rev [0 ..< snd (shape h)] ! (snd (shape h) - 1 - j))"
      unfolding trailing_cols_def by (rule takeWhile_prefix_holds)
    with assms(1) show ?thesis by (simp add: rev_nth)
  qed
qed

lemma trim_candidate_all_empty: "\<not> has_data g \<Longrightarrow> trim_candidate g = []"
  by (simp add: trim_candidate_def trim_rows_all_empty trim_cols_def)

text \<open>
  C8. The border trimming removes leading and trailing rows and columns that are entirely
  no-data only when at least a 1 x 1 array remains. A grid that would be trimmed away
  entirely (no row has a data cell) is returned unchanged, and a grid of at least 1 x 1
  never becomes an empty array. A rectangular grid with data is trimmed: the result is the
  trimmed candidate, whose first and last row and first and last column each hold a data
  cell. What is cut off is empty: the rows before and after the kept ones, and every column
  before or after the kept ones.
\<close>

theorem C8_trim_borders:
  "(\<not> has_data g \<longrightarrow>
      trim_candidate g = [] \<and> remove_empty_first_and_last_rows_and_cols g = g) \<and>
   (shape g = (x, y) \<longrightarrow> 1 \<le> x \<longrightarrow> 1 \<le> y \<longrightarrow>
      1 \<le> fst (shape (remove_empty_first_and_last_rows_and_cols g)) \<and>
      1 \<le> snd (shape (remove_empty_first_and_last_rows_and_cols g))) \<and>
   (rectangular g \<longrightarrow> has_data g \<longrightarrow>
      remove_empty_first_and_last_rows_and_cols g = trim_candidate g \<and>
      \<not> empty_line (hd (remove_empty_first_and_last_rows_and_cols g)) \<and>
      \<not> empty_line (last (remove_empty_first_and_last_rows_and_cols g)) \<and>
      \<not> empty_col (remove_empty_first_and_last_rows_and_cols g) 0 \<and>
      \<not> empty_col (remove_empty_first_and_last_rows_and_cols g)
          (snd (shape (remove_empty_first_and_last_rows_and_cols g)) - 1)) \<and>
   g = takeWhile empty_line g @ trim_rows g @
       rev (takeWhile empty_line (rev (dropWhile empty_line g))) \<and>
   list_all empty_line (takeWhile empty_line g) \<and>
   list_all empty_line (rev (takeWhile empty_line (rev (dropWhile empty_line g)))) \<and>
   (j < snd (shape (trim_rows g)) \<longrightarrow>
    (j < leading_cols (trim_rows g) \<or>
     snd (shape (trim_rows g)) - trailing_cols (trim_rows g) \<le> j) \<longrightarrow>
    empty_col (trim_rows g) j)"
proof -
  have a: "trim_candidate g = [] \<and> remove_empty_first_and_last_rows_and_cols g = g"
    if "\<not> has_data g"
    using that by (simp add: trim_candidate_all_empty remove_all_empty)
  have c: "remove_empty_first_and_last_rows_and_cols g = trim_candidate g \<and>
      \<not> empty_line (hd (remove_empty_first_and_last_rows_and_cols g)) \<and>
      \<not> empty_line (last (remove_empty_first_and_last_rows_and_cols g)) \<and>
      \<not> empty_col (remove_empty_first_and_last_rows_and_cols g) 0 \<and>
      \<not> empty_col (remove_empty_first_and_last_rows_and_cols g)
          (snd (shape (remove_empty_first_and_last_rows_and_cols g)) - 1)"
    if "rectangular g" "has_data g"
    using remove_with_data [OF that] by simp
  from a c remove_nonempty [of g x y] trim_rows_decomposition [of g] removed_rows_empty [of g]
    removed_cols_empty [of j "trim_rows g"]
  show ?thesis by blast
qed

theorem C8_trim_borders_witness:
  "\<not> has_data example_blank \<and>
   remove_empty_first_and_last_rows_and_cols example_blank = example_blank \<and>
   shape example_bordered = (4, 3) \<and> rectangular example_bordered \<and>
   has_data example_bordered \<and>
   remove_empty_first_and_last_rows_and_cols example_bordered = trim_candidate example_bordered \<and>
   trim_candidate example_bordered = [[Some 5], [Some 7]] \<and>
   1 \<le> fst (shape (remove_empty_first_and_last_rows_and_cols example_bordered)) \<and>
   1 \<le> snd (shape (remove_empty_first_and_last_rows_and_cols example_bordered))"
proof -
  have b: "\<not> has_data example_blank"
    by (simp add: has_data_def example_blank_def empty_line_def)
  have s: "shape example_bordered = (4, 3)"
    by (simp add: example_bordered_def shape_def)
  have r: "rectangular example_bordered"
    by (simp add: rectangular_def example_bordered_def shape_def)
  have d: "has_data example_bordered"
    by (simp add: has_data_def example_bordered_def empty_line_def)
  have t: "trim_candidate example_bordered = [[Some 5], [Some 7]]"
    by (simp add: trim_candidate_def trim_rows_def trim_cols_def leading_cols_def
        trailing_cols_def empty_col_def empty_line_def shape_def example_bordered_def upt_rec)
  from C8_trim_borders [where g = example_blank] b
  have u: "remove_empty_first_and_last_rows_and_cols example_blank = example_blank"
    by blast
  have n: "(1::nat) \<le> 4" "(1::nat) \<le> 3" by simp_all
  from C8_trim_borders [where g = example_bordered and x = 4 and y = 3] s r d n
  have v: "remove_empty_first_and_last_rows_and_cols example_bordered =
      trim_candidate example_bordered \<and>
    1 \<le> fst (shape (remove_empty_first_and_last_rows_and_cols example_bordered)) \<and>
    1 \<le> snd (shape (remove_empty_first_and_last_rows_and_cols example_bordered))"
    by blast
  from b u s r d t v show ?thesis by blast
qed

subsection \<open>Tile format\<close>

lemma split_on_nonempty: "split_on c s \<noteq> []"
  by (induction s) (auto split: list.splits)

lemma split_on_single: "split_on c s = [b] \<Longrightarrow> s = b \<and> c \<notin> set b"
proof (induction s arbitrary: b)
  case Nil
  then show ?case by simp
next
  case (Cons d s)
  show ?case
  proof (cases "d = c")
    case True
    with Cons.prems show ?thesis by (simp add: split_on_nonempty)
  next
    case False
    with Cons.prems obtain p where p: "split_on c s = [p]" "b = d # p"
      by (auto simp: split_on_nonempty split: list.splits)
    from Cons.IH [OF p(1)] p(2) False show ?thesis by auto
  qed
qed

lemma split_on_pair: "split_on c s = [a, b] \<Longrightarrow> s = a @ c # b \<and> c \<notin> set a \<and> c \<notin> set b"
proof (induction s arbitrary: a)
  case Nil
  then show ?case by simp
next
  case (Cons d s)
  show ?case
  proof (cases "d = c")
    case True
    with Cons.prems have "a = []" "split_on c s = [b]" by simp_all
    with split_on_single [of c s b] True show ?thesis by simp
  next
    case False
    with Cons.prems obtain p where p: "split_on c s = [p, b]" "a = d # p"
      by (auto simp: split_on_nonempty split: list.splits)
    from Cons.IH [OF p(1)] p(2) False show ?thesis by auto
  qed
qed

lemma split_on_free: "c \<notin> set b \<Longrightarrow> split_on c b = [b]"
  by (induction b) auto

lemma split_on_append: "c \<notin> set a \<Longrightarrow> split_on c (a @ c # b) = a # split_on c b"
  by (induction a) auto

lemma parse_nat_digits: "parse_nat s = Some k \<Longrightarrow> list_all is_digit s"
  by (simp add: parse_nat_def split: if_splits)

lemma not_digit: "\<not> is_digit CHR ''x''" "\<not> is_digit CHR ''-''"
  by (simp_all add: is_digit_def)

lemma parse_int_no_x: "parse_int s = Some n \<Longrightarrow> CHR ''x'' \<notin> set s"
proof -
  assume a: "parse_int s = Some n"
  show ?thesis
  proof (cases s)
    case Nil
    then show ?thesis by simp
  next
    case (Cons c ds)
    show ?thesis
    proof (cases "c = CHR ''-''")
      case True
      with a Cons obtain k where "parse_nat ds = Some k" by (auto simp: parse_int_def)
      from parse_nat_digits [OF this] not_digit(1) True Cons show ?thesis
        by (auto simp: list_all_iff)
    next
      case False
      with a Cons obtain k where "parse_nat s = Some k" by (auto simp: parse_int_def)
      from parse_nat_digits [OF this] not_digit(1) show ?thesis
        by (auto simp: list_all_iff)
    qed
  qed
qed

lemma get_iff: "get_x_y_from_tiles_format s = Inr (TileFormat n m) \<longleftrightarrow> exact_shape s n m"
proof
  assume g: "get_x_y_from_tiles_format s = Inr (TileFormat n m)"
  then obtain a b where ab: "split_on CHR ''x'' s = [a, b]"
    by (auto simp: get_x_y_from_tiles_format_def split: list.splits)
  with g have p: "parse_int a = Some n" "parse_int b = Some m" "1 \<le> n" "1 \<le> m"
    by (auto simp: get_x_y_from_tiles_format_def split: option.splits if_splits)
  from split_on_pair [OF ab] have "s = a @ ''x'' @ b" by simp
  with p show "exact_shape s n m" unfolding exact_shape_def by blast
next
  assume "exact_shape s n m"
  then obtain a b where s: "s = a @ ''x'' @ b"
    and p: "parse_int a = Some n" "parse_int b = Some m" "1 \<le> n" "1 \<le> m"
    unfolding exact_shape_def by blast
  from parse_int_no_x [OF p(1)] parse_int_no_x [OF p(2)] s
  have "split_on CHR ''x'' s = [a, b]"
    by (simp add: split_on_append split_on_free)
  with p show "get_x_y_from_tiles_format s = Inr (TileFormat n m)"
    by (simp add: get_x_y_from_tiles_format_def)
qed

lemma get_result:
  "get_x_y_from_tiles_format s = Inl InvalidTileFormat \<or>
   (\<exists>n m. get_x_y_from_tiles_format s = Inr (TileFormat n m))"
  by (auto simp: get_x_y_from_tiles_format_def split: list.splits option.splits)

lemma get_x_y_example:
  "get_x_y_from_tiles_format ''12x10'' = Inr (TileFormat 12 10)"
  "get_x_y_from_tiles_format ''2x3x4'' = Inl InvalidTileFormat"
  by (simp_all add: get_x_y_from_tiles_format_def parse_int_def parse_nat_def is_digit_def
      digits_value_def digit_value_def)

text \<open>
  C5. \<open>get_x_y_from_tiles_format\<close> (the specification's \<open>parse_tile_format\<close>) maps "2x3"
  to (2, 3) and "1x1" to (1, 1); it fails with \<open>InvalidTileFormat\<close> on "", "2x", "axb" and
  "0x1"; it returns the pair (n, m) exactly for the strings of the shape integer, x, integer
  with the integers n and m at least 1, and on every string that has that shape for no pair
  it fails with \<open>InvalidTileFormat\<close>.
\<close>

theorem C5_tile_format:
  "get_x_y_from_tiles_format ''2x3'' = Inr (TileFormat 2 3) \<and>
   get_x_y_from_tiles_format ''1x1'' = Inr (TileFormat 1 1) \<and>
   get_x_y_from_tiles_format [] = Inl InvalidTileFormat \<and>
   get_x_y_from_tiles_format ''2x'' = Inl InvalidTileFormat \<and>
   get_x_y_from_tiles_format ''axb'' = Inl InvalidTileFormat \<and>
   get_x_y_from_tiles_format ''0x1'' = Inl InvalidTileFormat \<and>
   (get_x_y_from_tiles_format s = Inr (TileFormat n m) \<longleftrightarrow> exact_shape s n m) \<and>
   ((\<forall>n m. \<not> exact_shape s n m) \<longrightarrow> get_x_y_from_tiles_format s = Inl InvalidTileFormat)"
proof -
  have e: "get_x_y_from_tiles_format ''2x3'' = Inr (TileFormat 2 3)"
    "get_x_y_from_tiles_format ''1x1'' = Inr (TileFormat 1 1)"
    "get_x_y_from_tiles_format [] = Inl InvalidTileFormat"
    "get_x_y_from_tiles_format ''2x'' = Inl InvalidTileFormat"
    "get_x_y_from_tiles_format ''axb'' = Inl InvalidTileFormat"
    "get_x_y_from_tiles_format ''0x1'' = Inl InvalidTileFormat"
    by (simp_all add: get_x_y_from_tiles_format_def parse_int_def parse_nat_def is_digit_def
        digits_value_def digit_value_def)
  have f: "get_x_y_from_tiles_format s = Inl InvalidTileFormat"
    if "\<forall>n m. \<not> exact_shape s n m"
    using that get_result [of s] get_iff [of s] by auto
  from e f get_iff [of s n m] show ?thesis by blast
qed

theorem C5_tile_format_witness:
  "(\<forall>n m. \<not> exact_shape ''2x3x4'' n m) \<and>
   get_x_y_from_tiles_format ''2x3x4'' = Inl InvalidTileFormat \<and>
   exact_shape ''12x10'' 12 10 \<and>
   get_x_y_from_tiles_format ''12x10'' = Inr (TileFormat 12 10)"
proof -
  have a: "\<not> exact_shape ''2x3x4'' n m" for n m
    using C5_tile_format [of "''2x3x4''" n m] get_x_y_example(2) by simp
  have b: "exact_shape ''12x10'' 12 10"
    using C5_tile_format [of "''12x10''" 12 10] get_x_y_example(1) by simp
  from a have h: "\<forall>n m. \<not> exact_shape ''2x3x4'' n m" by blast
  from C5_tile_format [of "''2x3x4''"] h
  have c: "get_x_y_from_tiles_format ''2x3x4'' = Inl InvalidTileFormat" by blast
  from h c b get_x_y_example(1) show ?thesis by blast
qed

subsection \<open>The entry point\<close>

lemma ends_with_append: "ends_with e (a @ e)"
  by (simp add: ends_with_def)

lemma ends_with_other: "length e = length e' \<Longrightarrow> e \<noteq> e' \<Longrightarrow> \<not> ends_with e (a @ e')"
  by (simp add: ends_with_def)

lemma tif_path:
  "ends_with ''.tif'' (filepath @ ''/'' @ collection @ ''_'' @ t @ ''.tif'') \<and>
   \<not> ends_with ''.stl'' (filepath @ ''/'' @ collection @ ''_'' @ t @ ''.tif'')"
proof -
  have "filepath @ ''/'' @ collection @ ''_'' @ t @ ''.tif'' =
        (filepath @ ''/'' @ collection @ ''_'' @ t) @ ''.tif''" by simp
  then obtain a where pa: "filepath @ ''/'' @ collection @ ''_'' @ t @ ''.tif'' = a @ ''.tif''"
    by blast
  have 1: "ends_with ''.tif'' (a @ ''.tif'')" by (rule ends_with_append)
  have 2: "\<not> ends_with ''.stl'' (a @ ''.tif'')" by (rule ends_with_other) simp_all
  from 1 2 show ?thesis unfolding pa by blast
qed

lemma save_tifs_ok:
  "save_tifs_with_one_band filepath bands collection height width dims stamps = Inr files \<Longrightarrow>
   files = [] \<or>
   files = map (\<lambda>t. filepath @ ''/'' @ collection @ ''_'' @ t @ ''.tif'') stamps"
  by (auto simp: save_tifs_with_one_band_def split: list.splits if_splits)

lemma fetch_ok:
  "fetch_stac_items_for_bbox catalog bands collection geometry cache_dir = Inr files \<Longrightarrow>
   \<exists>box. bbox geometry = Inr box \<and> 0 < n_items (catalog box) \<and>
     planetary_computer (catalog box) \<and>
     (files = [] \<or>
      files = map (\<lambda>t. cache_dir @ ''/'' @ collection @ ''_'' @ t @ ''.tif'')
                (scene_times (catalog box)))"
proof -
  assume a: "fetch_stac_items_for_bbox catalog bands collection geometry cache_dir = Inr files"
  then obtain box where b: "bbox geometry = Inr box"
    by (auto simp: fetch_stac_items_for_bbox_def split: sum.splits)
  with a have n: "0 < n_items (catalog box)" and p: "planetary_computer (catalog box)"
    and s: "save_images_from_xarr (catalog box) cache_dir bands collection = Inr files"
    by (auto simp: fetch_stac_items_for_bbox_def Let_def split: if_splits)
  from s obtain dims where
    "save_tifs_with_one_band cache_dir bands collection (raster_height (catalog box))
       (raster_width (catalog box)) dims (scene_times (catalog box)) = Inr files"
    by (auto simp: save_images_from_xarr_def Let_def)
  from save_tifs_ok [OF this] b n p show ?thesis by blast
qed

lemma fetched_are_tiffs:
  assumes "fetch_stac_items_for_bbox catalog bands collection geometry cache_dir = Inr files"
    and "p \<in> set files"
  shows "ends_with ''.tif'' p \<and> \<not> ends_with ''.stl'' p"
proof -
  from fetch_ok [OF assms(1)] assms(2) obtain box t where
    "p = cache_dir @ ''/'' @ collection @ ''_'' @ t @ ''.tif''" by auto
  with tif_path [of cache_dir collection t] show ?thesis by simp
qed

lemma convert_ok:
  "convert_bbox_to_tif archiver catalog collection bands bbox_geometry output_file tiles_format
     compress cache_dir = Inr r \<Longrightarrow>
   \<exists>geometry tiles files. bbox_geometry = Some geometry \<and>
     get_x_y_from_tiles_format tiles_format = Inr tiles \<and>
     fetch_stac_items_for_bbox catalog bands collection geometry cache_dir = Inr files \<and>
     (if compress then archiver files (output_file @ ''.zip'') = Inr (hd (returned_paths r)) \<and>
          r = One (hd (returned_paths r))
      else r = (if length files = 1 then One (files ! 0) else Many files))"
  by (auto simp: convert_bbox_to_tif_def split: option.splits sum.splits if_splits)

text \<open>
  Whatever the inputs, an uncompressed run that returns gives back the GeoTIFF files that
  the acquisition saved: no returned path is an STL file.
\<close>

lemma convert_bbox_to_tif_returns_tiffs:
  assumes "convert_bbox_to_tif archiver catalog collection bands bbox_geometry output_file
     tiles_format False cache_dir = Inr r"
    and "p \<in> set (returned_paths r)"
  shows "ends_with ''.tif'' p \<and> \<not> ends_with ''.stl'' p"
proof -
  from convert_ok [OF assms(1)] obtain geometry files where
    f: "fetch_stac_items_for_bbox catalog bands collection geometry cache_dir = Inr files"
    and r: "r = (if length files = 1 then One (files ! 0) else Many files)"
    by auto
  have "returned_paths r = files"
  proof (cases "length files = 1")
    case True
    then obtain q where "files = [q]" by (cases files) auto
    with r show ?thesis by simp
  next
    case False
    with r show ?thesis by simp
  qed
  with assms(2) fetched_are_tiffs [OF f] show ?thesis by simp
qed

text \<open>
  A run that finds a single scene does not return: the time axis of length 1 is dropped,
  the loop runs over the rows and the write of a row raises.
\<close>

lemma single_scene_raises:
  "convert_bbox_to_tif example_zip example_catalog_single ''landsat-c2-l2'' ''red''
     (Some example_geometry) ''output'' ''2x3'' False ''cache'' = Inl ValueError"
  by (simp add: convert_bbox_to_tif_def fetch_stac_items_for_bbox_def save_images_from_xarr_def
      save_tifs_with_one_band_def squeeze_def bbox_def example_geometry_def
      example_catalog_single_def get_x_y_from_tiles_format_def parse_int_def parse_nat_def
      is_digit_def digits_value_def digit_value_def Let_def)

text \<open>
  C6 says that every call to \<open>convert_bbox_to_tif\<close> that returns normally has produced
  one or more STL geometry files, one file per tile for a multi-tile conversion, at the
  output path of the caller. The code does otherwise. Asked for 2 x 3 tiles, without
  compression, with the output file "output", a run that finds two scenes returns normally
  with two files; they are the GeoTIFF files of the two scenes in the cache directory: not
  STL files, not one file for each of the six tiles, and not at the output path.
\<close>

theorem C6_returns_tiffs_not_stl:
  "convert_bbox_to_tif example_zip example_catalog ''landsat-c2-l2'' ''red''
     (Some example_geometry) ''output'' ''2x3'' False ''cache'' =
     Inr (Many [''cache/landsat-c2-l2_2023-10-21_10-30-00.tif'',
                ''cache/landsat-c2-l2_2023-10-23_10-30-00.tif'']) \<and>
   get_x_y_from_tiles_format ''2x3'' = Inr (TileFormat 2 3) \<and>
   \<not> ends_with ''.stl'' ''cache/landsat-c2-l2_2023-10-21_10-30-00.tif'' \<and>
   \<not> ends_with ''.stl'' ''cache/landsat-c2-l2_2023-10-23_10-30-00.tif'' \<and>
   length (returned_paths (Many [''cache/landsat-c2-l2_2023-10-21_10-30-00.tif'',
                ''cache/landsat-c2-l2_2023-10-23_10-30-00.tif''])) \<noteq> 2 * 3 \<and>
   take (length ''output'') ''cache/landsat-c2-l2_2023-10-21_10-30-00.tif'' \<noteq> ''output'' \<and>
   take (length ''output'') ''cache/landsat-c2-l2_2023-10-23_10-30-00.tif'' \<noteq> ''output''"
proof -
  have t: "get_x_y_from_tiles_format ''2x3'' = Inr (TileFormat 2 3)"
    by (simp add: get_x_y_from_tiles_format_def parse_int_def parse_nat_def is_digit_def
        digits_value_def digit_value_def)
  have r: "convert_bbox_to_tif example_zip example_catalog ''landsat-c2-l2'' ''red''
     (Some example_geometry) ''output'' ''2x3'' False ''cache'' =
     Inr (Many [''cache/landsat-c2-l2_2023-10-21_10-30-00.tif'',
                ''cache/landsat-c2-l2_2023-10-23_10-30-00.tif''])"
    by (simp add: convert_bbox_to_tif_def t fetch_stac_items_for_bbox_def
        save_images_from_xarr_def save_tifs_with_one_band_def squeeze_def bbox_def
        example_geometry_def example_catalog_def Let_def)
  have s: "\<not> ends_with ''.stl'' ''cache/landsat-c2-l2_2023-10-21_10-30-00.tif''"
    "\<not> ends_with ''.stl'' ''cache/landsat-c2-l2_2023-10-23_10-30-00.tif''"
    by (simp_all add: ends_with_def)
  from r t s show ?thesis by simp
qed

subsection \<open>Triangulation\<close>






























end
